theory Spec2Isabelle
  imports Main "HOL-Library.AList"
begin

section \<open>JavaScript values\<close>

text \<open>
  The servers handle JSON payloads as JavaScript values. A value is \<open>undefined\<close>, \<open>null\<close>,
  a boolean, a number, a string, an array or an object. These are values as the engine
  holds them after parsing, not the text of a body. A number is a double; \<open>JNum i\<close> is
  the double whose value is the integer \<open>i\<close> (status codes, counts and other whole
  numbers; fractions are not represented, and where an integer that no double holds is
  printed, it is rounded to the nearest double first). An object is an association
  list in insertion order; a property read takes the first entry of a key, and the objects
  the handlers build have distinct keys.
\<close>

datatype json =
    JUndefined
  | JNull
  | JBool bool
  | JNum int
  | JStr string
  | JArr "json list"
  | JObj "(string \<times> json) list"

text \<open>
  What a JavaScript \<open>throw\<close> or a rejected promise carries:
  \<^item> \<open>Thrown s d\<close> is the object literal \<open>{ status: s, data: d }\<close> thrown by the request
    helpers;
  \<^item> \<open>TypeError\<close> is raised by a property read on \<open>undefined\<close> or \<open>null\<close>, or by calling
    \<open>.map\<close> on something that is not an array;
  \<^item> \<open>FetchError m\<close> is the rejection of \<open>fetch\<close> with message \<open>m\<close> when no response
    arrives;
  \<^item> \<open>InvalidJson m\<close> is the rejection of \<open>response.json()\<close> with message \<open>m\<close> on a body
    that is not JSON;
  \<^item> \<open>ApiRequestFailed s\<close> is \<open>new Error(`API request failed with status ${s}`)\<close>.
  Only the object literal has the properties \<open>status\<close> and \<open>data\<close>.
\<close>

datatype exn =
    Thrown nat json
  | TypeError
  | FetchError string
  | InvalidJson string
  | ApiRequestFailed nat

fun truthy :: "json \<Rightarrow> bool" where
  "truthy JUndefined = False"
| "truthy JNull = False"
| "truthy (JBool b) = b"
| "truthy (JNum i) = (i \<noteq> 0)"
| "truthy (JStr s) = (s \<noteq> [])"
| "truthy (JArr xs) = True"
| "truthy (JObj kvs) = True"

fun js_typeof :: "json \<Rightarrow> string" where
  "js_typeof JUndefined = ''undefined''"
| "js_typeof JNull = ''object''"
| "js_typeof (JBool b) = ''boolean''"
| "js_typeof (JNum i) = ''number''"
| "js_typeof (JStr s) = ''string''"
| "js_typeof (JArr xs) = ''object''"
| "js_typeof (JObj kvs) = ''object''"

text \<open>\<open>a || b\<close>\<close>

definition js_or :: "json \<Rightarrow> json \<Rightarrow> json" where
  "js_or a b = (if truthy a then a else b)"

text \<open>
  A property read \<open>v.k\<close> for the keys the handlers read (none of them is \<open>length\<close>, an
  index or a prototype method): it throws on \<open>undefined\<close> and \<open>null\<close>, gives the own
  property of an object, and \<open>undefined\<close> otherwise.
\<close>

fun getProp :: "json \<Rightarrow> string \<Rightarrow> exn + json" where
  "getProp JUndefined k = Inl TypeError"
| "getProp JNull k = Inl TypeError"
| "getProp (JObj kvs) k = Inr (case map_of kvs k of Some v \<Rightarrow> v | None \<Rightarrow> JUndefined)"
| "getProp v k = Inr JUndefined"

text \<open>The optional read \<open>v?.k\<close> gives \<open>undefined\<close> where \<open>v.k\<close> would throw.\<close>

definition getPropOpt :: "json \<Rightarrow> string \<Rightarrow> json" where
  "getPropOpt v k = (case getProp v k of Inl e \<Rightarrow> JUndefined | Inr x \<Rightarrow> x)"

text \<open>The optional index read \<open>v?.[0]\<close>.\<close>

fun getIndex0Opt :: "json \<Rightarrow> json" where
  "getIndex0Opt (JArr (x # xs)) = x"
| "getIndex0Opt (JStr (c # cs)) = JStr [c]"
| "getIndex0Opt (JObj kvs) = (case map_of kvs ''0'' of Some v \<Rightarrow> v | None \<Rightarrow> JUndefined)"
| "getIndex0Opt v = JUndefined"

text \<open>\<open>v.map(f)\<close> for a callback that may throw: defined on arrays only.\<close>

fun mapM :: "('a \<Rightarrow> exn + 'b) \<Rightarrow> 'a list \<Rightarrow> exn + 'b list" where
  "mapM f [] = Inr []"
| "mapM f (x # xs) =
     (case f x of
        Inl e \<Rightarrow> Inl e
      | Inr y \<Rightarrow> (case mapM f xs of Inl e \<Rightarrow> Inl e | Inr ys \<Rightarrow> Inr (y # ys)))"

fun js_map :: "json \<Rightarrow> (json \<Rightarrow> exn + json) \<Rightarrow> exn + json list" where
  "js_map (JArr xs) f = mapM f xs"
| "js_map v f = Inl TypeError"

subsection \<open>Strings\<close>

text \<open>
  \<open>toUpperCase\<close> and \<open>toLowerCase\<close> on the ASCII letters; HTTP methods and header names
  are ASCII tokens, and no character outside ASCII maps to one of the letters of
  \<open>GET\<close> and \<open>HEAD\<close>.
\<close>

definition upper_char :: "char \<Rightarrow> char" where
  "upper_char c =
     (case map_of (zip ''abcdefghijklmnopqrstuvwxyz'' ''ABCDEFGHIJKLMNOPQRSTUVWXYZ'') c of
        Some u \<Rightarrow> u | None \<Rightarrow> c)"

definition lower_char :: "char \<Rightarrow> char" where
  "lower_char c =
     (case map_of (zip ''ABCDEFGHIJKLMNOPQRSTUVWXYZ'' ''abcdefghijklmnopqrstuvwxyz'') c of
        Some l \<Rightarrow> l | None \<Rightarrow> c)"

definition toUpperCase :: "string \<Rightarrow> string" where
  "toUpperCase s = map upper_char s"

definition toLowerCase :: "string \<Rightarrow> string" where
  "toLowerCase s = map lower_char s"

text \<open>Decimal digits of a natural number, for numbers inside template literals.\<close>

fun show_nat :: "nat \<Rightarrow> string" where
  "show_nat n =
     (if n < 10 then [''0123456789'' ! n]
      else show_nat (n div 10) @ [''0123456789'' ! (n mod 10)])"

declare show_nat.simps [simp del]

text \<open>
  The string of a number. An integer is first rounded to the nearest double (53
  significant bits, ties to even). Below \<open>2^53\<close> every integer is a double and prints
  with all its digits. From there on the engine prints the shortest decimal that still
  rounds to the same double, padded with zeros up to 21 digits and in exponent form beyond;
  what exceeds the largest double is \<open>Infinity\<close>.
\<close>

fun bit_length :: "nat \<Rightarrow> nat" where
  "bit_length n = (if n = 0 then 0 else Suc (bit_length (n div 2)))"

declare bit_length.simps [simp del]

definition to_double :: "nat \<Rightarrow> nat" where
  "to_double n =
     (let b = bit_length n in
      if b \<le> 53 then n
      else let e = b - 53; q = n div 2 ^ e; r = n mod 2 ^ e
           in (if 2 ^ e < 2 * r \<or> (2 * r = 2 ^ e \<and> odd q) then q + 1 else q) * 2 ^ e)"

text \<open>
  The decimal with \<open>k\<close> significant digits next to \<open>v\<close> (a number of \<open>n\<close> digits) that
  rounds to \<open>v\<close>, if there is one; of two, the nearer.
\<close>

definition candidate :: "nat \<Rightarrow> nat \<Rightarrow> nat \<Rightarrow> nat option" where
  "candidate v n k =
     (let p = 10 ^ (n - k); lo = (v div p) * p; hi = lo + p;
          oklo = (to_double lo = v); okhi = (to_double hi = v)
      in if oklo \<and> okhi then (if v - lo \<le> hi - v then Some lo else Some hi)
         else if oklo then Some lo
         else if okhi then Some hi
         else None)"

fun shortest :: "nat \<Rightarrow> nat \<Rightarrow> nat list \<Rightarrow> nat" where
  "shortest v n [] = v"
| "shortest v n (k # ks) =
     (case candidate v n k of Some x \<Rightarrow> x | None \<Rightarrow> shortest v n ks)"

definition exponent_form :: "nat \<Rightarrow> string" where
  "exponent_form x =
     (let ds = show_nat x;
          m = rev (dropWhile (\<lambda>c. c = CHR ''0'') (rev ds))
      in (case m of
            [] \<Rightarrow> ''0''
          | [d] \<Rightarrow> [d]
          | d # rest \<Rightarrow> d # CHR ''.'' # rest)
         @ ''e+'' @ show_nat (length ds - 1))"

definition show_double :: "nat \<Rightarrow> string" where
  "show_double n =
     (let v = to_double n in
      if v < 2 ^ 53 then show_nat v
      else if 2 ^ 1024 \<le> v then ''Infinity''
      else let x = shortest v (length (show_nat v)) [1..<18]
           in if length (show_nat x) \<le> 21 then show_nat x else exponent_form x)"

definition show_int :: "int \<Rightarrow> string" where
  "show_int i = (if i < 0 then CHR ''-'' # show_double (nat (- i)) else show_double (nat i))"

fun join :: "string \<Rightarrow> string list \<Rightarrow> string" where
  "join sep [] = []"
| "join sep [s] = s"
| "join sep (s # t # ts) = s @ sep @ join sep (t # ts)"

text \<open>
  String conversion, as a template literal \<open>`${v}`\<close> applies it. An array joins its
  elements with commas, \<open>null\<close> and \<open>undefined\<close> elements giving the empty string.
\<close>

fun toStr :: "json \<Rightarrow> string" where
  "toStr JUndefined = ''undefined''"
| "toStr JNull = ''null''"
| "toStr (JBool b) = (if b then ''true'' else ''false'')"
| "toStr (JNum i) = show_int i"
| "toStr (JStr s) = s"
| "toStr (JArr xs) =
     join '','' (map (\<lambda>x. if x = JUndefined \<or> x = JNull then [] else toStr x) xs)"
| "toStr (JObj kvs) = ''[object Object]''"


section \<open>The network\<close>

text \<open>
  An outbound call is the request object handed to the HTTP client (\<open>axios(config)\<close> or
  \<open>fetch(url, options)\<close>). Its body is absent, a value given as \<open>config.data\<close>, the text
  \<open>JSON.stringify\<close> makes of a value, or a form (\<open>URLSearchParams\<close>).
\<close>

datatype out_body =
    NoBody
  | Data json
  | Stringified json
  | Form "(string \<times> string) list"

record outbound =
  out_method :: string
  out_url :: string
  out_headers :: "(string \<times> json) list"
  out_params :: json
  out_body :: out_body

text \<open>
  The upstream answers a call with a status and a body, which is JSON (\<open>JsonBody j\<close>:
  a body whose text parses as JSON, \<open>j\<close> being the value the parser makes of it) or some
  other text (\<open>TextBody t m\<close>: the text \<open>t\<close>, and the message \<open>m\<close> of the error that
  parsing it as JSON raises), or does not answer (\<open>NoReply m\<close>: connection failure, unusable URL, ...;
  \<open>m\<close> is the error message of the client).
\<close>

datatype payload = JsonBody json | TextBody string string

datatype reply = Reply nat payload | NoReply string

text \<open>
  The servers keep no state between requests. The state threaded through a handler is the
  outside world: the answers the upstream will give to the next calls, in order, and the
  log of the calls made so far. A call made when no answer is left fails without a reply.
\<close>

record world =
  script :: "reply list"
  log :: "outbound list"

definition send :: "outbound \<Rightarrow> world \<Rightarrow> reply \<times> world" where
  "send rq w =
     (case script w of
        [] \<Rightarrow> (NoReply ''no reply'', w\<lparr>log := log w @ [rq]\<rparr>)
      | r # rs \<Rightarrow> (r, w\<lparr>script := rs, log := log w @ [rq]\<rparr>))"

definition is2xx :: "nat \<Rightarrow> bool" where
  "is2xx s = (200 \<le> s \<and> s < 300)"

text \<open>
  \<open>axios\<close> resolves on a 2xx status and rejects otherwise, with \<open>error.response\<close> set when
  the upstream replied. \<open>response.data\<close> is the parsed body, or the text itself when the
  body is not JSON.
\<close>

datatype axios_result =
    Resolved nat json
  | RejectedResponse nat json
  | RejectedNoResponse

definition axios_data :: "payload \<Rightarrow> json" where
  "axios_data p = (case p of JsonBody j \<Rightarrow> j | TextBody t m \<Rightarrow> JStr t)"

definition axios :: "outbound \<Rightarrow> world \<Rightarrow> axios_result \<times> world" where
  "axios config w =
     (case send config w of
        (Reply s p, w') \<Rightarrow>
          (if is2xx s then Resolved s (axios_data p) else RejectedResponse s (axios_data p), w')
      | (NoReply m, w') \<Rightarrow> (RejectedNoResponse, w'))"

text \<open>
  \<open>fetch\<close> resolves with the response whatever its status, and rejects when there is no
  reply. \<open>response.ok\<close> is \<open>is2xx\<close> of the status; \<open>response.json()\<close> rejects on a body
  that is not JSON.
\<close>

definition fetch :: "outbound \<Rightarrow> world \<Rightarrow> (exn + nat \<times> payload) \<times> world" where
  "fetch rq w =
     (case send rq w of
        (Reply s p, w') \<Rightarrow> (Inr (s, p), w')
      | (NoReply m, w') \<Rightarrow> (Inl (FetchError m), w'))"

definition response_json :: "payload \<Rightarrow> exn + json" where
  "response_json p = (case p of JsonBody j \<Rightarrow> Inr j | TextBody t m \<Rightarrow> Inl (InvalidJson m))"

text \<open>\<open>JSON.stringify(v)\<close> as a request body: \<open>undefined\<close> stays \<open>undefined\<close>, no body.\<close>

definition stringify_body :: "json \<Rightarrow> out_body" where
  "stringify_body v = (if v = JUndefined then NoBody else Stringified v)"

section \<open>Requests, responses, configuration\<close>

text \<open>
  An inbound request as the handlers see it: \<open>req.method\<close>, \<open>req.params\<close> (strings),
  \<open>req.headers\<close> and \<open>req.body\<close>. A response is the status and the value given to
  \<open>res.json\<close>, which serialises it (or the text given to \<open>res.send\<close>, as a string).
\<close>

record request =
  req_method :: string
  req_params :: "(string \<times> string) list"
  req_headers :: "(string \<times> json) list"
  req_body :: json

record response =
  res_status :: nat
  res_body :: json

definition respond :: "nat \<Rightarrow> json \<Rightarrow> response" where
  "respond s b = \<lparr>res_status = s, res_body = b\<rparr>"

text \<open>\<open>req.params.k\<close>\<close>

definition param :: "request \<Rightarrow> string \<Rightarrow> json" where
  "param rq k = (case map_of (req_params rq) k of Some v \<Rightarrow> JStr v | None \<Rightarrow> JUndefined)"

text \<open>\<open>req.get(name)\<close> reads \<open>req.headers\<close> under the lower-cased name.\<close>

definition req_get :: "request \<Rightarrow> string \<Rightarrow> json" where
  "req_get rq name =
     (case map_of (req_headers rq) (toLowerCase name) of Some v \<Rightarrow> v | None \<Rightarrow> JUndefined)"

text \<open>The values read from \<open>process.env\<close> once, when the module is loaded.\<close>

record config =
  WEBFLOW_API_KEY :: json
  SITE_ID :: json
  AIRTABLE_API_KEY :: json
  AIRTABLE_BASE_ID :: json
  AIRTABLE_HORSES_TABLE :: json
  PORT :: json

text \<open>\<open>error.status || 500\<close> and \<open>error.data\<close> in the \<open>catch\<close> blocks.\<close>

fun exn_status :: "exn \<Rightarrow> nat option" where
  "exn_status (Thrown s d) = Some s"
| "exn_status e = None"

fun exn_data :: "exn \<Rightarrow> json" where
  "exn_data (Thrown s d) = d"
| "exn_data e = JUndefined"

definition status_or_500 :: "exn \<Rightarrow> nat" where
  "status_or_500 e = (case exn_status e of Some s \<Rightarrow> (if s = 0 then 500 else s) | None \<Rightarrow> 500)"

type_synonym handler = "config \<Rightarrow> request \<Rightarrow> world \<Rightarrow> (exn + response) \<times> world"


section \<open>The axios variant: helper and routes\<close>

text \<open>
  \<open>makeWebflowRequest(method, endpoint, data = null)\<close>: the body is attached when \<open>data\<close>
  is truthy and the upper-cased method is neither \<open>GET\<close> nor \<open>HEAD\<close>. A rejection with
  a response is rethrown as \<open>{ status, data }\<close> of that response, any other as status 500
  with a fixed message.
\<close>

definition makeWebflowRequest ::
  "config \<Rightarrow> string \<Rightarrow> string \<Rightarrow> json \<Rightarrow> world \<Rightarrow> (exn + json) \<times> world" where
  "makeWebflowRequest cfg method endpoint data w =
     (let url = ''https://api.webflow.com'' @ endpoint;
          headers =
            [(''accept'', JStr ''application/json''),
             (''authorization'', JStr (''Bearer '' @ toStr (WEBFLOW_API_KEY cfg))),
             (''content-type'', JStr ''application/json'')];
          config = \<lparr>out_method = method, out_url = url, out_headers = headers,
                    out_params = JUndefined, out_body = NoBody\<rparr>;
          config' = (if truthy data \<and> toUpperCase method \<notin> set [''GET'', ''HEAD'']
                     then config\<lparr>out_body := Data data\<rparr> else config)
      in case axios config' w of
           (Resolved s d, w') \<Rightarrow> (Inr d, w')
         | (RejectedResponse s d, w') \<Rightarrow> (Inl (Thrown s d), w')
         | (RejectedNoResponse, w') \<Rightarrow>
             (Inl (Thrown 500 (JObj [(''message'', JStr ''Internal Server Error'')])), w'))"

text \<open>\<open>makeAirtableRequest(method, path, params = null, data = null)\<close>\<close>

definition makeAirtableRequest ::
  "config \<Rightarrow> string \<Rightarrow> string \<Rightarrow> json \<Rightarrow> json \<Rightarrow> world \<Rightarrow> (exn + json) \<times> world" where
  "makeAirtableRequest cfg method path params data w =
     (let url = ''https://api.airtable.com/v0/'' @ toStr (AIRTABLE_BASE_ID cfg) @ ''/'' @ path;
          headers =
            [(''Authorization'', JStr (''Bearer '' @ toStr (AIRTABLE_API_KEY cfg))),
             (''Content-Type'', JStr ''application/json'')];
          config = \<lparr>out_method = method, out_url = url, out_headers = headers,
                    out_params = JUndefined, out_body = NoBody\<rparr>;
          config1 = (if truthy params then config\<lparr>out_params := params\<rparr> else config);
          config2 = (if truthy data \<and> toUpperCase method \<notin> set [''GET'', ''HEAD'']
                     then config1\<lparr>out_body := Data data\<rparr> else config1)
      in case axios config2 w of
           (Resolved s d, w') \<Rightarrow> (Inr d, w')
         | (RejectedResponse s d, w') \<Rightarrow> (Inl (Thrown s d), w')
         | (RejectedNoResponse, w') \<Rightarrow>
             (Inl (Thrown 500 (JObj [(''message'', JStr ''Internal Server Error'')])), w'))"

text \<open>
  The \<open>catch\<close> block the routes of this variant share, up to the message and the key it
  is stored under:
  \<open>res.status(error.status || 500).json({ error: msg, details: error.data })\<close>.
\<close>

definition failed :: "exn \<Rightarrow> string \<Rightarrow> response" where
  "failed error msg =
     respond (status_or_500 error) (JObj [(''error'', JStr msg), (''details'', exn_data error)])"

definition failed_flagged :: "exn \<Rightarrow> string \<Rightarrow> response" where
  "failed_flagged error msg =
     respond (status_or_500 error)
       (JObj [(''success'', JBool False), (''message'', JStr msg), (''details'', exn_data error)])"

definition bad_request :: "string \<Rightarrow> response" where
  "bad_request msg = respond 400 (JObj [(''error'', JStr msg)])"

text \<open>\<open>GET /test_auth\<close> and \<open>POST /test_auth\<close> (the same body)\<close>

definition test_auth :: handler where
  "test_auth cfg rq w =
     (case makeWebflowRequest cfg ''GET'' ''/v2/token/authorized_by'' JNull w of
        (Inr data, w') \<Rightarrow>
          (Inr (respond 200 (JObj [(''success'', JBool True),
                  (''message'', JStr ''Authorization successful!''), (''data'', data)])), w')
      | (Inl error, w') \<Rightarrow> (Inr (failed_flagged error ''Authorization failed.''), w'))"

text \<open>\<open>GET /webflow/pages/:page_id/meta\<close>\<close>

definition get_page_meta :: handler where
  "get_page_meta cfg rq w =
     (let page_id = param rq ''page_id'' in
      if \<not> truthy page_id then (Inr (bad_request ''page_id is required.''), w)
      else case makeWebflowRequest cfg ''GET'' (''/pages/'' @ toStr page_id) JNull w of
             (Inr data, w') \<Rightarrow> (Inr (respond 200 data), w')
           | (Inl error, w') \<Rightarrow> (Inr (failed error ''Failed to fetch page metadata.''), w'))"

text \<open>
  \<open>PUT /webflow/pages/:page_id/meta\<close>. The body is destructured before the checks, outside
  the \<open>try\<close>: on a body that is \<open>undefined\<close> or \<open>null\<close> the handler throws.
\<close>

definition put_page_meta :: handler where
  "put_page_meta cfg rq w =
     (let page_id = param rq ''page_id'' in
      case getProp (req_body rq) ''fieldData'' of
        Inl e \<Rightarrow> (Inl e, w)
      | Inr fieldData \<Rightarrow>
          if \<not> truthy page_id then (Inr (bad_request ''page_id is required.''), w)
          else if \<not> truthy fieldData \<or> js_typeof fieldData \<noteq> ''object''
          then (Inr (bad_request ''Valid fieldData object is required.''), w)
          else (case makeWebflowRequest cfg ''PUT'' (''/pages/'' @ toStr page_id)
                      (JObj [(''fieldData'', fieldData)]) w of
                 (Inr data, w') \<Rightarrow> (Inr (respond 200 data), w')
               | (Inl error, w') \<Rightarrow>
                   (Inr (failed error ''Failed to update page metadata.''), w')))"

text \<open>\<open>GET /webflow/pages/:page_id/content\<close>\<close>

definition get_page_content :: handler where
  "get_page_content cfg rq w =
     (let page_id = param rq ''page_id'' in
      if \<not> truthy page_id then (Inr (bad_request ''page_id is required.''), w)
      else case makeWebflowRequest cfg ''GET'' (''/pages/'' @ toStr page_id @ ''/dom'') JNull w of
             (Inr data, w') \<Rightarrow> (Inr (respond 200 data), w')
           | (Inl error, w') \<Rightarrow> (Inr (failed error ''Failed to fetch page content.''), w'))"

text \<open>\<open>POST /webflow/pages/:page_id/content\<close>\<close>

definition post_page_content :: handler where
  "post_page_content cfg rq w =
     (let page_id = param rq ''page_id'' in
      case getProp (req_body rq) ''body_id'' of
        Inl e \<Rightarrow> (Inl e, w)
      | Inr body_id \<Rightarrow>
          let script_id = getPropOpt (req_body rq) ''script_id'';
              script_version = getPropOpt (req_body rq) ''script_version'';
              fieldData = getPropOpt (req_body rq) ''fieldData''
          in
          if \<not> truthy page_id then (Inr (bad_request ''page_id is required.''), w)
          else if \<not> truthy fieldData \<or> js_typeof fieldData \<noteq> ''object''
          then (Inr (bad_request ''Valid fieldData object is required.''), w)
          else
            let data = JObj [(''body_id'', body_id), (''script_id'', script_id),
                             (''script_version'', script_version), (''fieldData'', fieldData)]
            in (case makeWebflowRequest cfg ''POST'' (''/pages/'' @ toStr page_id @ ''/dom'') data w of
                 (Inr response, w') \<Rightarrow> (Inr (respond 200 response), w')
               | (Inl error, w') \<Rightarrow>
                   (Inr (failed error ''Failed to update page content.''), w')))"

text \<open>\<open>GET /webflow/collections/:collection_id/items/live\<close>\<close>

definition get_live_item :: handler where
  "get_live_item cfg rq w =
     (let collection_id = param rq ''collection_id'' in
      if \<not> truthy collection_id then (Inr (bad_request ''collection_id is required.''), w)
      else case makeWebflowRequest cfg ''GET''
                  (''/collections/'' @ toStr collection_id @ ''/items/live'') JNull w of
             (Inr data, w') \<Rightarrow> (Inr (respond 200 data), w')
           | (Inl error, w') \<Rightarrow>
               (Inr (failed error ''Failed to fetch live collection item.''), w'))"

text \<open>\<open>PATCH /webflow/collections/:collection_id/items/live\<close>\<close>

definition patch_live_item :: handler where
  "patch_live_item cfg rq w =
     (let collection_id = param rq ''collection_id'' in
      case getProp (req_body rq) ''fieldData'' of
        Inl e \<Rightarrow> (Inl e, w)
      | Inr fieldData \<Rightarrow>
          if \<not> truthy collection_id then (Inr (bad_request ''collection_id is required.''), w)
          else if \<not> truthy fieldData \<or> js_typeof fieldData \<noteq> ''object''
          then (Inr (bad_request ''Valid fieldData object is required.''), w)
          else (case makeWebflowRequest cfg ''PATCH''
                      (''/collections/'' @ toStr collection_id @ ''/items/live'')
                      (JObj [(''fieldData'', fieldData)]) w of
                 (Inr data, w') \<Rightarrow> (Inr (respond 200 data), w')
               | (Inl error, w') \<Rightarrow>
                   (Inr (failed error ''Failed to update live collection item.''), w')))"

text \<open>\<open>GET /webflow/pages/:page_id/custom_code\<close>\<close>

definition get_custom_code :: handler where
  "get_custom_code cfg rq w =
     (let page_id = param rq ''page_id'' in
      if \<not> truthy page_id then (Inr (bad_request ''page_id is required.''), w)
      else case makeWebflowRequest cfg ''GET''
                  (''/pages/'' @ toStr page_id @ ''/custom_code'') JNull w of
             (Inr data, w') \<Rightarrow> (Inr (respond 200 data), w')
           | (Inl error, w') \<Rightarrow>
               (Inr (failed error ''Failed to fetch custom code for page.''), w'))"

text \<open>\<open>PUT /webflow/pages/:page_id/custom_code\<close>\<close>

definition put_custom_code :: handler where
  "put_custom_code cfg rq w =
     (let page_id = param rq ''page_id'' in
      case getProp (req_body rq) ''customCode'' of
        Inl e \<Rightarrow> (Inl e, w)
      | Inr customCode \<Rightarrow>
          if \<not> truthy page_id then (Inr (bad_request ''page_id is required.''), w)
          else if \<not> truthy customCode \<or> js_typeof customCode \<noteq> ''object''
          then (Inr (bad_request ''Valid customCode object is required.''), w)
          else (case makeWebflowRequest cfg ''PUT''
                      (''/pages/'' @ toStr page_id @ ''/custom_code'')
                      (JObj [(''customCode'', customCode)]) w of
                 (Inr data, w') \<Rightarrow> (Inr (respond 200 data), w')
               | (Inl error, w') \<Rightarrow>
                   (Inr (failed error ''Failed to add/update custom code for page.''), w')))"


subsection \<open>Collection items and their projection\<close>

text \<open>
  An object literal \<open>{ k1: e1, k2: e2, ... }\<close> whose expressions are property reads or
  values: the reads are made in order, and the first that throws ends the evaluation.
\<close>

datatype init = Read json string | Val json

definition andThen :: "exn + 'a \<Rightarrow> ('a \<Rightarrow> exn + 'b) \<Rightarrow> exn + 'b" where
  "andThen r f = (case r of Inl e \<Rightarrow> Inl e | Inr x \<Rightarrow> f x)"

fun eval_init :: "string \<times> init \<Rightarrow> exn + string \<times> json" where
  "eval_init (k, Read obj p) = andThen (getProp obj p) (\<lambda>v. Inr (k, v))"
| "eval_init (k, Val v) = Inr (k, v)"

definition object_literal :: "(string \<times> init) list \<Rightarrow> exn + json" where
  "object_literal inits = andThen (mapM eval_init inits) (\<lambda>kvs. Inr (JObj kvs))"

text \<open>The callback of \<open>response.items.map\<close> in the first variant of \<open>/cms/collection/items\<close>.\<close>

definition project_A :: "json \<Rightarrow> exn + json" where
  "project_A item =
     andThen (getProp item ''fieldData'') (\<lambda>f.
       object_literal
         [(''id'', Read item ''id''),
          (''name'', Read f ''name''),
          (''display'', Read f ''display''),
          (''type'', Read f ''type''),
          (''company'', Read f ''company''),
          (''category'', Read f ''category''),
          (''description'', Read f ''description''),
          (''keywords'', Read f ''keywords''),
          (''link'', Read f ''linkto''),
          (''options'', Read f ''options''),
          (''opts_ids'', Read f ''opts''),
          (''slug'', Read f ''slug''),
          (''createdOn'', Read item ''createdOn''),
          (''lastUpdated'', Read item ''lastUpdated'')])"

definition collectionId_A :: string where
  "collectionId_A = ''647ddb9037101ce399b3310c''"

definition collectionId_B :: string where
  "collectionId_B = ''64b01211660e83444d2586c1''"

text \<open>The callback in the second variant.\<close>

definition project_B :: "json \<Rightarrow> exn + json" where
  "project_B item =
     andThen (getProp item ''fieldData'') (\<lambda>f.
       object_literal
         [(''name'', Read f ''name''),
          (''slug'', Read f ''slug''),
          (''collectionId'', Val (JStr collectionId_B)),
          (''itemId'', Read item ''id''),
          (''createdOn'', Read item ''createdOn''),
          (''updatedOn'', Read item ''lastUpdated''),
          (''publishedOn'', Read item ''lastPublished''),
          (''type'', Read f ''type''),
          (''display'', Read f ''display''),
          (''company'', Read f ''company''),
          (''category'', Read f ''category''),
          (''options'', Read f ''options''),
          (''description'', Read f ''description''),
          (''suggest'', Read f ''suggest''),
          (''linkto'', Read f ''linkto''),
          (''co'', Read f ''co''),
          (''expl'', Read f ''expl''),
          (''comp'', Read f ''comp''),
          (''acct'', Read f ''acct'')])"

text \<open>\<open>response.items.map(callback)\<close>\<close>

definition clean_items :: "(json \<Rightarrow> exn + json) \<Rightarrow> json \<Rightarrow> exn + json list" where
  "clean_items callback response =
     andThen (getProp response ''items'') (\<lambda>items. js_map items callback)"

text \<open>
  \<open>GET /cms/collection/items\<close>, projecting variants: the request and the projection are
  inside one \<open>try\<close>, so a throw of the projection reaches the same \<open>catch\<close>.
\<close>

definition cms_items :: "string \<Rightarrow> (json \<Rightarrow> exn + json) \<Rightarrow> handler" where
  "cms_items collectionId callback cfg rq w =
     (case makeWebflowRequest cfg ''GET'' (''/v2/collections/'' @ collectionId @ ''/items'') JNull w of
        (Inl error, w') \<Rightarrow> (Inr (failed_flagged error ''Failed to fetch CMS items.''), w')
      | (Inr response, w') \<Rightarrow>
          (case clean_items callback response of
             Inl error \<Rightarrow> (Inr (failed_flagged error ''Failed to fetch CMS items.''), w')
           | Inr cleaned \<Rightarrow>
               (Inr (respond 200 (JObj [(''success'', JBool True),
                       (''count'', JNum (int (length cleaned))),
                       (''items'', JArr cleaned)])), w')))"

definition cms_items_A :: handler where
  "cms_items_A = cms_items collectionId_A project_A"

definition cms_items_B :: handler where
  "cms_items_B = cms_items collectionId_B project_B"

text \<open>\<open>GET /cms/collection/items\<close>, the variant that returns the payload as it is.\<close>

definition cms_items_raw :: handler where
  "cms_items_raw cfg rq w =
     (case makeWebflowRequest cfg ''GET'' (''/v2/collections/'' @ collectionId_A @ ''/items'') JNull w of
        (Inr data, w') \<Rightarrow>
          (Inr (respond 200 (JObj [(''success'', JBool True), (''data'', data)])), w')
      | (Inl error, w') \<Rightarrow>
          (Inr (failed_flagged error ''Failed to fetch collection items.''), w'))"

text \<open>\<open>GET /airtable/ping\<close>\<close>

definition airtable_ping :: handler where
  "airtable_ping cfg rq w =
     (case makeAirtableRequest cfg ''GET'' (toStr (AIRTABLE_HORSES_TABLE cfg))
             (JObj [(''pageSize'', JNum 1)]) JNull w of
        (Inr data, w') \<Rightarrow>
          (Inr (respond 200 (JObj [(''success'', JBool True), (''message'', JStr ''Airtable OK''),
                  (''sample'', js_or (getIndex0Opt (getPropOpt data ''records'')) JNull)])), w')
      | (Inl error, w') \<Rightarrow> (Inr (failed_flagged error ''Airtable failed''), w'))"

text \<open>\<open>GET /\<close>\<close>

definition root :: handler where
  "root cfg rq w = (Inr (respond 200 (JStr ''App is running.'')), w)"


section \<open>The proxy variant\<close>

text \<open>The request \<open>refreshToken\<close> sends to the token endpoint.\<close>

definition token_request :: outbound where
  "token_request =
     \<lparr>out_method = ''POST'',
      out_url = ''https://api.foxycart.com/token'',
      out_headers = [(''Content-Type'', JStr ''application/x-www-form-urlencoded'')],
      out_params = JUndefined,
      out_body = Form [(''grant_type'', ''refresh_token''),
                       (''refresh_token'', ''XbuTTBW9R6sRHWvKvnYYuJkpAIYnLaZeKHsjAL1D''),
                       (''client_id'', ''client_gsIC67wRNWDFk9UPUjNV''),
                       (''client_secret'', ''gsGeQmYYlWgk3GPkBLsbmTpq7GSt4lrwHHNi1IQm'')]\<rparr>"

text \<open>
  \<open>refreshToken()\<close>: the status of the reply is not looked at; the result is the
  \<open>access_token\<close> property of the parsed body.
\<close>

definition refreshToken :: "world \<Rightarrow> (exn + json) \<times> world" where
  "refreshToken w =
     (case fetch token_request w of
        (Inl e, w') \<Rightarrow> (Inl e, w')
      | (Inr (s, p), w') \<Rightarrow>
          (case response_json p of
             Inl e \<Rightarrow> (Inl e, w')
           | Inr tokenData \<Rightarrow> (getProp tokenData ''access_token'', w')))"

text \<open>The body both forwarding routes give to \<open>fetch\<close>.\<close>

definition forwarded_body :: "request \<Rightarrow> out_body" where
  "forwarded_body rq =
     (if req_method rq \<in> set [''POST'', ''PUT''] then stringify_body (req_body rq) else NoBody)"

text \<open>
  What both forwarding routes do with the reply: a status outside 2xx is thrown as an
  \<open>Error\<close>, a 2xx body is parsed and sent back.
\<close>

definition relay :: "(exn + nat \<times> payload) \<Rightarrow> exn + response" where
  "relay r =
     (case r of
        Inl e \<Rightarrow> Inl e
      | Inr (s, p) \<Rightarrow>
          if \<not> is2xx s then Inl (ApiRequestFailed s)
          else andThen (response_json p) (\<lambda>data. Inr (respond 200 data)))"

definition foxycart_request :: "request \<Rightarrow> json \<Rightarrow> outbound" where
  "foxycart_request rq accessToken =
     (let endpoint = toStr (param rq ''endpoint'') @ toStr (js_or (param rq ''0'') (JStr []));
          apiUrl = ''https://api.foxycart.com/'' @ endpoint
      in \<lparr>out_method = req_method rq,
          out_url = apiUrl,
          out_headers =
            [(''Authorization'', JStr (''Bearer '' @ toStr accessToken)),
             (''FOXY-API-VERSION'', JStr ''1''),
             (''Content-Type'', js_or (req_get rq ''Content-Type'') (JStr ''application/json''))],
          out_params = JUndefined,
          out_body = forwarded_body rq\<rparr>)"

text \<open>\<open>ALL /foxycart/:endpoint*\<close>: everything is inside the \<open>try\<close>.\<close>

definition foxycart :: handler where
  "foxycart cfg rq w =
     (let caught = respond 500 (JObj [(''error'', JStr ''Error fetching data from FoxyCart API'')])
      in case refreshToken w of
           (Inl error, w1) \<Rightarrow> (Inr caught, w1)
         | (Inr accessToken, w1) \<Rightarrow>
             (case fetch (foxycart_request rq accessToken) w1 of
                (r, w2) \<Rightarrow>
                  (case relay r of
                     Inl error \<Rightarrow> (Inr caught, w2)
                   | Inr sent \<Rightarrow> (Inr sent, w2))))"

text \<open>
  \<open>ALL /proxy/*\<close>: the headers are the inbound ones, with the keys \<open>Host\<close> and \<open>Origin\<close>
  set to \<open>undefined\<close>.
\<close>

definition proxy_request :: "request \<Rightarrow> outbound" where
  "proxy_request rq =
     \<lparr>out_method = req_method rq,
      out_url = toStr (param rq ''0''),
      out_headers =
        AList.update ''Origin'' JUndefined (AList.update ''Host'' JUndefined (req_headers rq)),
      out_params = JUndefined,
      out_body = forwarded_body rq\<rparr>"

definition proxy :: handler where
  "proxy cfg rq w =
     (let caught = respond 500 (JObj [(''error'', JStr ''Error fetching data from external API'')])
      in case fetch (proxy_request rq) w of
           (r, w1) \<Rightarrow>
             (case relay r of
                Inl error \<Rightarrow> (Inr caught, w1)
              | Inr sent \<Rightarrow> (Inr sent, w1)))"

section \<open>The node-fetch variant\<close>

definition fetch_headers :: "config \<Rightarrow> (string \<times> json) list" where
  "fetch_headers cfg =
     [(''accept'', JStr ''application/json''),
      (''authorization'', JStr (''Bearer '' @ toStr (WEBFLOW_API_KEY cfg))),
      (''content-type'', JStr ''application/json'')]"

text \<open>
  \<open>POST /webflow\<close>: \<open>req.body\<close> is destructured and \<open>fieldData.name\<close> is read before the
  \<open>try\<close>; an exception there leaves the handler.
\<close>

definition webflow_post :: handler where
  "webflow_post cfg rq w =
     (case getProp (req_body rq) ''fieldData'' of
        Inl e \<Rightarrow> (Inl e, w)
      | Inr fieldData \<Rightarrow>
          (case getProp fieldData ''name'' of
             Inl e \<Rightarrow> (Inl e, w)
           | Inr name \<Rightarrow>
               (let body = JObj [(''isArchived'', JBool False), (''isDraft'', JBool False),
                                 (''fieldData'', JObj [(''name'', name)])];
                    caught = respond 500 (JObj [(''error'', JStr ''Error sending data to Webflow API'')])
                in case fetch \<lparr>out_method = ''POST'',
                          out_url = ''https://api.webflow.com/v2/collections/6494e10f7a143f705f4db1d2/items'',
                          out_headers = fetch_headers cfg,
                          out_params = JUndefined,
                          out_body = stringify_body body\<rparr> w of
                     (Inl error, w') \<Rightarrow> (Inr caught, w')
                   | (Inr (s, p), w') \<Rightarrow>
                       if \<not> is2xx s
                       then (case response_json p of
                               Inl error \<Rightarrow> (Inr caught, w')
                             | Inr errorData \<Rightarrow>
                                 (Inr (respond s (JObj [(''error'', JStr ''Error sending data to Webflow API''),
                                                        (''details'', errorData)])), w'))
                       else (case response_json p of
                               Inl error \<Rightarrow> (Inr caught, w')
                             | Inr data \<Rightarrow> (Inr (respond 200 data), w')))))"

text \<open>
  The \<open>message\<close> of an error, as the \<open>catch\<close> of \<open>POST /test_auth\<close> reads it. Only the
  two rejections are raised inside that \<open>try\<close>; the text of a \<open>TypeError\<close> is the
  engine's and is not modelled.
\<close>

fun exn_message :: "exn \<Rightarrow> json" where
  "exn_message (FetchError m) = JStr m"
| "exn_message (InvalidJson m) = JStr m"
| "exn_message (ApiRequestFailed s) = JStr (''API request failed with status '' @ show_nat s)"
| "exn_message (Thrown s d) = JUndefined"
| "exn_message TypeError = JStr ''TypeError''"

text \<open>\<open>POST /test_auth\<close> of this variant\<close>

definition fetch_test_auth :: handler where
  "fetch_test_auth cfg rq w =
     (let caught = (\<lambda>error. respond 500 (JObj [(''success'', JBool False),
                      (''message'', JStr ''Error during authentication test.''),
                      (''details'', exn_message error)]))
      in case fetch \<lparr>out_method = ''GET'',
                out_url = ''https://api.webflow.com/sites'',
                out_headers = fetch_headers cfg,
                out_params = JUndefined,
                out_body = NoBody\<rparr> w of
           (Inl error, w') \<Rightarrow> (Inr (caught error), w')
         | (Inr (s, p), w') \<Rightarrow>
             if is2xx s
             then (case response_json p of
                     Inl error \<Rightarrow> (Inr (caught error), w')
                   | Inr data \<Rightarrow>
                       (Inr (respond 200 (JObj [(''success'', JBool True),
                          (''message'', JStr ''Authorization successful!''), (''data'', data)])), w'))
             else (case response_json p of
                     Inl error \<Rightarrow> (Inr (caught error), w')
                   | Inr errorData \<Rightarrow>
                       (Inr (respond s (JObj [(''success'', JBool False),
                          (''message'', JStr ''Authorization failed.''), (''details'', errorData)])), w')))"

section \<open>Start-up\<close>

text \<open>
  \<open>process.env\<close> maps names to strings. Loading a module either ends the process
  (\<open>process.exit(1)\<close>) or reaches \<open>app.listen\<close> with the values it has read.
\<close>

datatype startup = Exited nat | Listening config

definition env_get :: "(string \<rightharpoonup> string) \<Rightarrow> string \<Rightarrow> json" where
  "env_get env k = (case env k of None \<Rightarrow> JUndefined | Some v \<Rightarrow> JStr v)"

definition read_config :: "(string \<rightharpoonup> string) \<Rightarrow> config" where
  "read_config env =
     \<lparr>WEBFLOW_API_KEY = env_get env ''WEBFLOW_API_KEY'',
      SITE_ID = env_get env ''SITE_ID'',
      AIRTABLE_API_KEY = JUndefined,
      AIRTABLE_BASE_ID = JUndefined,
      AIRTABLE_HORSES_TABLE = JUndefined,
      PORT = js_or (env_get env ''PORT'') (JNum 3000)\<rparr>"

text \<open>The axios variants without the spreadsheet route.\<close>

definition startup_webflow :: "(string \<rightharpoonup> string) \<Rightarrow> startup" where
  "startup_webflow env =
     (let cfg = read_config env in
      if \<not> truthy (WEBFLOW_API_KEY cfg) \<or> \<not> truthy (SITE_ID cfg) then Exited 1
      else Listening cfg)"

text \<open>The axios variant with the spreadsheet route: a second check follows the first.\<close>

definition startup_airtable :: "(string \<rightharpoonup> string) \<Rightarrow> startup" where
  "startup_airtable env =
     (let cfg = read_config env in
      if \<not> truthy (WEBFLOW_API_KEY cfg) \<or> \<not> truthy (SITE_ID cfg) then Exited 1
      else
        let cfg' = cfg\<lparr>AIRTABLE_API_KEY := env_get env ''AIRTABLE_API_KEY'',
                       AIRTABLE_BASE_ID := env_get env ''AIRTABLE_BASE_ID'',
                       AIRTABLE_HORSES_TABLE :=
                         js_or (env_get env ''AIRTABLE_HORSES_TABLE'') (JStr ''tblliyUZ1ZS88Kfvl'')\<rparr>
        in if \<not> truthy (AIRTABLE_API_KEY cfg') \<or> \<not> truthy (AIRTABLE_BASE_ID cfg') then Exited 1
           else Listening cfg')"

text \<open>The node-fetch variant reads the key and checks nothing.\<close>

definition startup_fetch :: "(string \<rightharpoonup> string) \<Rightarrow> startup" where
  "startup_fetch env = Listening ((read_config env)\<lparr>SITE_ID := JUndefined\<rparr>)"

text \<open>The proxy variant reads only the port.\<close>

definition startup_proxy :: "(string \<rightharpoonup> string) \<Rightarrow> startup" where
  "startup_proxy env =
     Listening ((read_config env)\<lparr>WEBFLOW_API_KEY := JUndefined, SITE_ID := JUndefined\<rparr>)"

section \<open>The routes\<close>

datatype route =
    TestAuth
  | GetPageMeta
  | PutPageMeta
  | GetPageContent
  | PostPageContent
  | GetLiveItem
  | PatchLiveItem
  | GetCustomCode
  | PutCustomCode
  | CmsItemsA
  | CmsItemsB
  | CmsItemsRaw
  | AirtablePing
  | Root
  | FoxyCart
  | Proxy
  | WebflowPost
  | FetchTestAuth

fun handle :: "route \<Rightarrow> handler" where
  "handle TestAuth = test_auth"
| "handle GetPageMeta = get_page_meta"
| "handle PutPageMeta = put_page_meta"
| "handle GetPageContent = get_page_content"
| "handle PostPageContent = post_page_content"
| "handle GetLiveItem = get_live_item"
| "handle PatchLiveItem = patch_live_item"
| "handle GetCustomCode = get_custom_code"
| "handle PutCustomCode = put_custom_code"
| "handle CmsItemsA = cms_items_A"
| "handle CmsItemsB = cms_items_B"
| "handle CmsItemsRaw = cms_items_raw"
| "handle AirtablePing = airtable_ping"
| "handle Root = root"
| "handle FoxyCart = foxycart"
| "handle Proxy = proxy"
| "handle WebflowPost = webflow_post"
| "handle FetchTestAuth = fetch_test_auth"


section \<open>Routing of the first axios variant\<close>

text \<open>
  The framework chooses the handler. A path pattern is a list of segments, literal or
  parameter. A pattern matches a path that starts with a slash and whose segments match
  one by one, a literal without regard to case and a parameter any segment of one
  character at least; one trailing slash is allowed. The pattern \<open>/\<close> matches the
  path \<open>/\<close> only. Matching is on the path as it is sent; the parameters of the match
  are then percent-decoded.
\<close>

datatype seg = Lit string | Par string

fun split_slash :: "string \<Rightarrow> string list" where
  "split_slash [] = [[]]"
| "split_slash (c # cs) =
     (if c = CHR ''/'' then [] # split_slash cs
      else (case split_slash cs of
              [] \<Rightarrow> [[c]]
            | s # ss \<Rightarrow> (c # s) # ss))"

fun match_segs :: "seg list \<Rightarrow> string list \<Rightarrow> (string \<times> string) list option" where
  "match_segs [] [] = Some []"
| "match_segs (Lit l # ps) (s # ss) =
     (if toLowerCase s = toLowerCase l then match_segs ps ss else None)"
| "match_segs (Par n # ps) (s # ss) =
     (if s = [] then None
      else (case match_segs ps ss of None \<Rightarrow> None | Some kvs \<Rightarrow> Some ((n, s) # kvs)))"
| "match_segs ps ss = None"

definition match_path :: "seg list \<Rightarrow> string \<Rightarrow> (string \<times> string) list option" where
  "match_path pat path =
     (case path of
        [] \<Rightarrow> None
      | c # rest \<Rightarrow>
          if c \<noteq> CHR ''/'' then None
          else if pat = [] then (if rest = [] then Some [] else None)
          else match_segs pat
                 (split_slash (if rest \<noteq> [] \<and> last rest = CHR ''/'' then butlast rest else rest)))"

text \<open>A route registered for \<open>GET\<close> also serves \<open>HEAD\<close>.\<close>

definition method_matches :: "string \<Rightarrow> string \<Rightarrow> bool" where
  "method_matches registered m = (m = registered \<or> (m = ''HEAD'' \<and> registered = ''GET''))"

fun find_route ::
  "(string \<times> seg list \<times> route) list \<Rightarrow> string \<Rightarrow> string \<Rightarrow>
   (route \<times> (string \<times> string) list) option" where
  "find_route [] m path = None"
| "find_route ((registered, pat, r) # rest) m path =
     (if method_matches registered m
      then (case match_path pat path of
              Some ps \<Rightarrow> Some (r, ps)
            | None \<Rightarrow> find_route rest m path)
      else find_route rest m path)"

text \<open>The routes of the variant, in the order of their registration.\<close>

definition webflow_routes :: "(string \<times> seg list \<times> route) list" where
  "webflow_routes =
     [(''GET'', [Lit ''test_auth''], TestAuth),
      (''POST'', [Lit ''test_auth''], TestAuth),
      (''GET'', [], Root),
      (''GET'', [Lit ''webflow'', Lit ''pages'', Par ''page_id'', Lit ''meta''], GetPageMeta),
      (''PUT'', [Lit ''webflow'', Lit ''pages'', Par ''page_id'', Lit ''meta''], PutPageMeta),
      (''GET'', [Lit ''webflow'', Lit ''pages'', Par ''page_id'', Lit ''content''], GetPageContent),
      (''POST'', [Lit ''webflow'', Lit ''pages'', Par ''page_id'', Lit ''content''], PostPageContent),
      (''GET'', [Lit ''webflow'', Lit ''collections'', Par ''collection_id'', Lit ''items'', Lit ''live''],
         GetLiveItem),
      (''PATCH'', [Lit ''webflow'', Lit ''collections'', Par ''collection_id'', Lit ''items'', Lit ''live''],
         PatchLiveItem),
      (''GET'', [Lit ''webflow'', Lit ''pages'', Par ''page_id'', Lit ''custom_code''], GetCustomCode),
      (''PUT'', [Lit ''webflow'', Lit ''pages'', Par ''page_id'', Lit ''custom_code''], PutCustomCode)]"

text \<open>
  The framework decodes each parameter of the match with \<open>decodeURIComponent\<close>, given
  here as \<open>decode\<close> (\<open>None\<close> where it throws on a malformed escape).
\<close>

fun decode_params ::
  "(string \<Rightarrow> string option) \<Rightarrow> (string \<times> string) list \<Rightarrow> (string \<times> string) list option" where
  "decode_params decode [] = Some []"
| "decode_params decode ((k, v) # kvs) =
     (case decode v of
        None \<Rightarrow> None
      | Some v' \<Rightarrow>
          (case decode_params decode kvs of None \<Rightarrow> None | Some kvs' \<Rightarrow> Some ((k, v') # kvs')))"

text \<open>
  The server on an inbound request, given with its method, path, headers and parsed
  body. The CORS middleware answers every \<open>OPTIONS\<close> request itself with 204. A request
  that no route matches is answered by the framework with 404 and its \<open>Cannot ...\<close>
  page, and one whose parameter cannot be decoded with its 400 page; no handler runs
  in either case.
\<close>

definition serve_webflow ::
  "(string \<Rightarrow> string option) \<Rightarrow> config \<Rightarrow> string \<Rightarrow> string \<Rightarrow> (string \<times> json) list \<Rightarrow>
   json \<Rightarrow> world \<Rightarrow> (exn + response) \<times> world" where
  "serve_webflow decode cfg m path hs b w =
     (if m = ''OPTIONS'' then (Inr (respond 204 (JStr [])), w)
      else (case find_route webflow_routes m path of
              None \<Rightarrow> (Inr (respond 404 (JStr (''Cannot '' @ m @ '' '' @ path))), w)
            | Some (r, raw) \<Rightarrow>
                (case decode_params decode raw of
                   None \<Rightarrow> (Inr (respond 400 (JStr ''Bad Request'')), w)
                 | Some ps \<Rightarrow>
                     handle r cfg
                       \<lparr>req_method = m, req_params = ps, req_headers = hs, req_body = b\<rparr> w)))"


section \<open>Vocabulary of the properties\<close>

text \<open>The path parameter a route requires, from its path pattern.\<close>

fun required_param :: "route \<Rightarrow> string option" where
  "required_param GetPageMeta = Some ''page_id''"
| "required_param PutPageMeta = Some ''page_id''"
| "required_param GetPageContent = Some ''page_id''"
| "required_param PostPageContent = Some ''page_id''"
| "required_param GetLiveItem = Some ''collection_id''"
| "required_param PatchLiveItem = Some ''collection_id''"
| "required_param GetCustomCode = Some ''page_id''"
| "required_param PutCustomCode = Some ''page_id''"
| "required_param r = None"

text \<open>
  The structured body field a route requires: the four updating routes check theirs, and
  \<open>POST /webflow\<close> of the node-fetch variant reads \<open>fieldData.name\<close>.
\<close>

fun required_field :: "route \<Rightarrow> string option" where
  "required_field PutPageMeta = Some ''fieldData''"
| "required_field PostPageContent = Some ''fieldData''"
| "required_field PatchLiveItem = Some ''fieldData''"
| "required_field PutCustomCode = Some ''customCode''"
| "required_field WebflowPost = Some ''fieldData''"
| "required_field r = None"

text \<open>The routes that call the upstream through \<open>makeWebflowRequest\<close> or \<open>makeAirtableRequest\<close>.\<close>

fun axios_route :: "route \<Rightarrow> bool" where
  "axios_route FoxyCart = False"
| "axios_route Proxy = False"
| "axios_route WebflowPost = False"
| "axios_route FetchTestAuth = False"
| "axios_route Root = False"
| "axios_route r = True"

text \<open>
  A primitive value: \<open>undefined\<close>, \<open>null\<close>, a boolean, a number or a string; the other
  values are objects and arrays. \<open>nullish\<close> values are the two on which a property read
  throws.
\<close>

fun primitive :: "json \<Rightarrow> bool" where
  "primitive (JObj kvs) = False"
| "primitive (JArr xs) = False"
| "primitive v = True"

definition nullish :: "json \<Rightarrow> bool" where
  "nullish v = (v = JUndefined \<or> v = JNull)"

text \<open>\<open>Object.keys\<close>\<close>

fun keys :: "json \<Rightarrow> string list" where
  "keys (JObj kvs) = map fst kvs"
| "keys v = []"

text \<open>
  A header is present in a header object when some entry of its name, compared without
  regard to case as HTTP does, has a value.
\<close>

definition header_present :: "(string \<times> json) list \<Rightarrow> string \<Rightarrow> bool" where
  "header_present hs name =
     list_ex (\<lambda>(k, v). toLowerCase k = toLowerCase name \<and> v \<noteq> JUndefined) hs"

text \<open>An environment variable is unset when it is absent or empty.\<close>

definition unset :: "(string \<rightharpoonup> string) \<Rightarrow> string \<Rightarrow> bool" where
  "unset env k = (env k = None \<or> env k = Some [])"

subsection \<open>The projection as a table\<close>

text \<open>
  Where an output key of the projection takes its value: a property of the item, a
  property of the item's \<open>fieldData\<close>, or a value fixed in the code.
\<close>

datatype source = ItemField string | DataField string | Fixed json

fun source_value :: "json \<Rightarrow> source \<Rightarrow> json" where
  "source_value item (ItemField k) = getPropOpt item k"
| "source_value item (DataField k) = getPropOpt (getPropOpt item ''fieldData'') k"
| "source_value item (Fixed v) = v"

definition allow_list_A :: "(string \<times> source) list" where
  "allow_list_A =
     [(''id'', ItemField ''id''),
      (''name'', DataField ''name''),
      (''display'', DataField ''display''),
      (''type'', DataField ''type''),
      (''company'', DataField ''company''),
      (''category'', DataField ''category''),
      (''description'', DataField ''description''),
      (''keywords'', DataField ''keywords''),
      (''link'', DataField ''linkto''),
      (''options'', DataField ''options''),
      (''opts_ids'', DataField ''opts''),
      (''slug'', DataField ''slug''),
      (''createdOn'', ItemField ''createdOn''),
      (''lastUpdated'', ItemField ''lastUpdated'')]"

definition allow_list_B :: "(string \<times> source) list" where
  "allow_list_B =
     [(''name'', DataField ''name''),
      (''slug'', DataField ''slug''),
      (''collectionId'', Fixed (JStr ''64b01211660e83444d2586c1'')),
      (''itemId'', ItemField ''id''),
      (''createdOn'', ItemField ''createdOn''),
      (''updatedOn'', ItemField ''lastUpdated''),
      (''publishedOn'', ItemField ''lastPublished''),
      (''type'', DataField ''type''),
      (''display'', DataField ''display''),
      (''company'', DataField ''company''),
      (''category'', DataField ''category''),
      (''options'', DataField ''options''),
      (''description'', DataField ''description''),
      (''suggest'', DataField ''suggest''),
      (''linkto'', DataField ''linkto''),
      (''co'', DataField ''co''),
      (''expl'', DataField ''expl''),
      (''comp'', DataField ''comp''),
      (''acct'', DataField ''acct'')]"

definition projected :: "(string \<times> source) list \<Rightarrow> json \<Rightarrow> json" where
  "projected allow item = JObj (map (\<lambda>(k, src). (k, source_value item src)) allow)"

text \<open>An item the projection can read: neither it nor its \<open>fieldData\<close> is nullish.\<close>

definition has_fieldData :: "json \<Rightarrow> bool" where
  "has_fieldData item = (\<not> nullish item \<and> \<not> nullish (getPropOpt item ''fieldData''))"

subsection \<open>Sample inputs for the closed instances\<close>

definition sample_config :: config where
  "sample_config =
     \<lparr>WEBFLOW_API_KEY = JStr ''key'', SITE_ID = JStr ''site'',
      AIRTABLE_API_KEY = JStr ''pat'', AIRTABLE_BASE_ID = JStr ''app'',
      AIRTABLE_HORSES_TABLE = JStr ''tblliyUZ1ZS88Kfvl'', PORT = JNum 3000\<rparr>"

text \<open>What the node-fetch variant reads from an empty environment.\<close>

definition unchecked_config :: config where
  "unchecked_config =
     \<lparr>WEBFLOW_API_KEY = JUndefined, SITE_ID = JUndefined, AIRTABLE_API_KEY = JUndefined,
      AIRTABLE_BASE_ID = JUndefined, AIRTABLE_HORSES_TABLE = JUndefined, PORT = JNum 3000\<rparr>"

definition world_of :: "reply list \<Rightarrow> world" where
  "world_of rs = \<lparr>script = rs, log = []\<rparr>"

text \<open>A request to \<open>/proxy/https://api.example.com/items/7\<close> with a JSON body.\<close>

definition sample_proxy_request :: "string \<Rightarrow> request" where
  "sample_proxy_request m =
     \<lparr>req_method = m,
      req_params = [(''0'', ''https://api.example.com/items/7'')],
      req_headers = [(''host'', JStr ''relay.example.com''),
                     (''origin'', JStr ''https://www.sportdogfood.com''),
                     (''content-type'', JStr ''application/json'')],
      req_body = JObj [(''name'', JStr ''Rex'')]\<rparr>"

text \<open>A request to \<open>/foxycart/carts/42\<close>.\<close>

definition sample_cart_request :: "string \<Rightarrow> request" where
  "sample_cart_request m =
     \<lparr>req_method = m,
      req_params = [(''endpoint'', ''carts''), (''0'', ''/42'')],
      req_headers = [(''host'', JStr ''relay.example.com'')],
      req_body = JObj [(''name'', JStr ''Rex'')]\<rparr>"

definition not_found :: json where
  "not_found = JObj [(''message'', JStr ''Not Found'')]"

text \<open>An environment of the spreadsheet variant in which the base id is missing.\<close>

definition env_without_base :: "string \<rightharpoonup> string" where
  "env_without_base =
     map_of [(''WEBFLOW_API_KEY'', ''key''), (''SITE_ID'', ''site''), (''AIRTABLE_API_KEY'', ''pat'')]"


section \<open>Basic facts\<close>

lemma getProp_defined: "\<not> nullish v \<Longrightarrow> getProp v k = Inr (getPropOpt v k)"
  by (cases v) (simp_all add: getPropOpt_def nullish_def)

lemma getProp_nullish: "nullish v \<Longrightarrow> getProp v k = Inl TypeError"
  by (auto simp: nullish_def)

lemma not_truthy_param:
  "map_of (req_params rq) p = None \<or> map_of (req_params rq) p = Some [] \<Longrightarrow>
   \<not> truthy (param rq p)"
  by (auto simp: param_def)

lemma primitive_check: "primitive v \<Longrightarrow> \<not> truthy v \<or> js_typeof v \<noteq> ''object''"
  by (cases v) simp_all

lemmas validating_defs =
  get_page_meta_def put_page_meta_def get_page_content_def post_page_content_def
  get_live_item_def patch_live_item_def get_custom_code_def put_custom_code_def

section \<open>The path parameter\<close>

text \<open>
  The branch of the handlers: called with a request object whose parameter is missing
  or empty, each of the eight handlers answers 400 with \<open>'<parameter> is required.'\<close>
  and leaves the world as it is (on the four that destructure \<open>req.body\<close> first, provided
  that does not throw).
\<close>

lemma missing_path_param_branch:
  assumes "required_param r = Some p"
      and "map_of (req_params rq) p = None \<or> map_of (req_params rq) p = Some []"
      and "required_field r = None \<or> \<not> nullish (req_body rq)"
  shows "handle r cfg rq w =
           (Inr \<lparr>res_status = 400,
                 res_body = JObj [(''error'', JStr (p @ '' is required.''))]\<rparr>, w)"
proof -
  have nt: "\<not> truthy (param rq p)"
    using assms(2) by (rule not_truthy_param)
  show ?thesis
    using assms(1,3) nt
    by (cases r) (simp_all add: validating_defs bad_request_def respond_def getProp_defined)
qed

text \<open>The router never hands over an empty parameter.\<close>

lemma match_segs_values:
  "match_segs pat ss = Some ps \<Longrightarrow>
   map fst ps = concat (map (\<lambda>x. case x of Lit l \<Rightarrow> [] | Par n \<Rightarrow> [n]) pat)
   \<and> [] \<notin> snd ` set ps"
proof (induction pat ss arbitrary: ps rule: match_segs.induct)
  case 1
  then show ?case by simp
next
  case (2 l ps' s ss)
  then show ?case by (simp split: if_splits)
next
  case (3 n ps' s ss)
  then show ?case by (auto split: if_splits option.splits)
qed simp_all

lemma match_path_values:
  assumes "match_path pat path = Some ps"
  shows "map fst ps = concat (map (\<lambda>x. case x of Lit l \<Rightarrow> [] | Par n \<Rightarrow> [n]) pat)
         \<and> [] \<notin> snd ` set ps"
proof (cases "pat = []")
  case True
  with assms show ?thesis
    by (auto simp: match_path_def split: list.splits if_splits)
next
  case False
  with assms obtain ss where "match_segs pat ss = Some ps"
    by (auto simp: match_path_def split: list.splits if_splits)
  then show ?thesis
    by (rule match_segs_values)
qed

lemma decode_params_values:
  assumes "decode_params decode raw = Some ps"
      and "\<And>s v. s \<noteq> [] \<Longrightarrow> decode s = Some v \<Longrightarrow> v \<noteq> []"
      and "[] \<notin> snd ` set raw"
  shows "map fst ps = map fst raw \<and> [] \<notin> snd ` set ps"
  using assms
proof (induction raw arbitrary: ps)
  case Nil
  then show ?case by simp
next
  case (Cons kv raw)
  obtain k v where kv: "kv = (k, v)" by (cases kv)
  from Cons.prems(1) kv obtain v' ps' where
    d: "decode v = Some v'" and r: "decode_params decode raw = Some ps'" and p: "ps = (k, v') # ps'"
    by (auto split: option.splits)
  from Cons.prems(3) kv have "v \<noteq> []" by auto
  with d Cons.prems(2) have "v' \<noteq> []" by blast
  moreover have "map fst ps' = map fst raw \<and> [] \<notin> snd ` set ps'"
    using Cons.IH [OF r Cons.prems(2)] Cons.prems(3) by auto
  ultimately show ?case
    using p kv by auto
qed

lemma routed_param_truthy:
  assumes "find_route webflow_routes m path = Some (r, raw)"
      and "decode_params decode raw = Some ps"
      and "\<And>s v. s \<noteq> [] \<Longrightarrow> decode s = Some v \<Longrightarrow> v \<noteq> []"
      and "required_param r = Some p"
  shows "truthy (param \<lparr>req_method = m, req_params = ps, req_headers = hs, req_body = b\<rparr> p)"
proof -
  have "\<exists>v. raw = [(p, v)] \<and> v \<noteq> []"
    using assms(1,4)
    by (auto simp: webflow_routes_def split: if_splits option.splits
        dest!: match_path_values)
  then obtain v where raw: "raw = [(p, v)]" and v: "v \<noteq> []"
    by blast
  from assms(2) raw obtain v' where "decode v = Some v'" and "ps = [(p, v')]"
    by (auto split: option.splits)
  with v assms(3) show ?thesis
    by (auto simp: param_def)
qed

text \<open>
  C7. A request in which the path parameter of one of the eight routes is empty or
  missing matches no route: the server answers it with the framework's 404, not with
  the handler's 400 and its message. No outbound call is made. Shown on each of the
  eight routes with the parameter's segment empty, and on a path with the segment left
  out, whatever the decoding of parameters.
\<close>

theorem empty_path_param_404:
  "serve_webflow decode sample_config ''GET'' ''/webflow/pages//meta'' [] (JObj []) (world_of [])
     = (Inr \<lparr>res_status = 404, res_body = JStr ''Cannot GET /webflow/pages//meta''\<rparr>, world_of [])
   \<and> serve_webflow decode sample_config ''PUT'' ''/webflow/pages//meta'' []
        (JObj [(''fieldData'', JObj [])]) (world_of [])
     = (Inr \<lparr>res_status = 404, res_body = JStr ''Cannot PUT /webflow/pages//meta''\<rparr>, world_of [])
   \<and> serve_webflow decode sample_config ''GET'' ''/webflow/pages//content'' [] (JObj []) (world_of [])
     = (Inr \<lparr>res_status = 404, res_body = JStr ''Cannot GET /webflow/pages//content''\<rparr>, world_of [])
   \<and> serve_webflow decode sample_config ''POST'' ''/webflow/pages//content'' []
        (JObj [(''fieldData'', JObj [])]) (world_of [])
     = (Inr \<lparr>res_status = 404, res_body = JStr ''Cannot POST /webflow/pages//content''\<rparr>, world_of [])
   \<and> serve_webflow decode sample_config ''GET'' ''/webflow/collections//items/live'' [] (JObj []) (world_of [])
     = (Inr \<lparr>res_status = 404,
             res_body = JStr ''Cannot GET /webflow/collections//items/live''\<rparr>, world_of [])
   \<and> serve_webflow decode sample_config ''PATCH'' ''/webflow/collections//items/live'' []
        (JObj [(''fieldData'', JObj [])]) (world_of [])
     = (Inr \<lparr>res_status = 404,
             res_body = JStr ''Cannot PATCH /webflow/collections//items/live''\<rparr>, world_of [])
   \<and> serve_webflow decode sample_config ''GET'' ''/webflow/pages//custom_code'' [] (JObj []) (world_of [])
     = (Inr \<lparr>res_status = 404,
             res_body = JStr ''Cannot GET /webflow/pages//custom_code''\<rparr>, world_of [])
   \<and> serve_webflow decode sample_config ''PUT'' ''/webflow/pages//custom_code'' []
        (JObj [(''customCode'', JObj [])]) (world_of [])
     = (Inr \<lparr>res_status = 404,
             res_body = JStr ''Cannot PUT /webflow/pages//custom_code''\<rparr>, world_of [])
   \<and> serve_webflow decode sample_config ''GET'' ''/webflow/pages/meta'' [] (JObj []) (world_of [])
     = (Inr \<lparr>res_status = 404, res_body = JStr ''Cannot GET /webflow/pages/meta''\<rparr>, world_of [])"
  by (simp add: serve_webflow_def webflow_routes_def method_matches_def match_path_def
      toLowerCase_def lower_char_def respond_def)

text \<open>
  With a parameter of one character at least the same routes reach their handler, as
  here, where the upstream's answer comes back.
\<close>

lemma routed_request_is_handled:
  "serve_webflow Some sample_config ''GET'' ''/webflow/pages/p1/meta'' [] (JObj [])
     (world_of [Reply 200 (JsonBody (JObj [(''id'', JStr ''p1'')]))])
   = (Inr \<lparr>res_status = 200, res_body = JObj [(''id'', JStr ''p1'')]\<rparr>,
      \<lparr>script = [],
       log = [\<lparr>out_method = ''GET'', out_url = ''https://api.webflow.com/pages/p1'',
               out_headers = [(''accept'', JStr ''application/json''),
                              (''authorization'', JStr ''Bearer key''),
                              (''content-type'', JStr ''application/json'')],
               out_params = JUndefined, out_body = NoBody\<rparr>]\<rparr>)"
  by (simp add: serve_webflow_def webflow_routes_def method_matches_def match_path_def
      toLowerCase_def lower_char_def respond_def get_page_meta_def param_def
      makeWebflowRequest_def axios_def send_def world_of_def sample_config_def is2xx_def
      axios_data_def toUpperCase_def upper_char_def)

section \<open>The body field\<close>

lemma webflow_post_responds_after_call:
  "webflow_post cfg rq w = (Inr resp, w') \<Longrightarrow> length (log w') = Suc (length (log w))"
  by (auto simp: webflow_post_def fetch_def send_def Let_def
      split: sum.splits list.splits reply.splits if_splits prod.splits)

text \<open>
  C8, as amended. On each of the four routes that check a structured body field
  (\<open>fieldData\<close> or \<open>customCode\<close>), a request whose body omits the field or gives it
  \<open>null\<close>, a boolean, a number or a string is answered with status 400, and the world is
  unchanged: no outbound call is made. \<open>POST /webflow\<close> of the node-fetch variant, which
  reads \<open>fieldData.name\<close>, has no such check: whenever it responds, it has made its
  outbound call.
\<close>

theorem invalid_body_field_400:
  "(required_field r = Some f \<and> required_param r = Some p \<and> \<not> nullish (req_body rq)
      \<and> primitive (getPropOpt (req_body rq) f) \<longrightarrow>
      handle r cfg rq w =
        (Inr \<lparr>res_status = 400,
              res_body = JObj [(''error'',
                JStr (if truthy (param rq p) then ''Valid '' @ f @ '' object is required.''
                      else p @ '' is required.''))]\<rparr>, w))
   \<and> (\<forall>resp w'. handle WebflowPost cfg rq w = (Inr resp, w') \<longrightarrow>
         length (log w') = Suc (length (log w)))"
proof (intro conjI impI allI)
  assume a: "required_field r = Some f \<and> required_param r = Some p \<and> \<not> nullish (req_body rq)
      \<and> primitive (getPropOpt (req_body rq) f)"
  then have "\<not> truthy (getPropOpt (req_body rq) f) \<or> js_typeof (getPropOpt (req_body rq) f) \<noteq> ''object''"
    using primitive_check [of "getPropOpt (req_body rq) f"] by blast
  with a show "handle r cfg rq w =
        (Inr \<lparr>res_status = 400,
              res_body = JObj [(''error'',
                JStr (if truthy (param rq p) then ''Valid '' @ f @ '' object is required.''
                      else p @ '' is required.''))]\<rparr>, w)"
    by (cases r)
       (auto simp add: validating_defs bad_request_def respond_def getProp_defined Let_def)
next
  fix resp w'
  assume "handle WebflowPost cfg rq w = (Inr resp, w')"
  then show "length (log w') = Suc (length (log w))"
    by (simp add: webflow_post_responds_after_call)
qed

theorem invalid_body_field_400_witness:
  "required_field PutCustomCode = Some ''customCode''
   \<and> required_param PutCustomCode = Some ''page_id''
   \<and> \<not> nullish (JObj [(''customCode'', JStr ''<script></script>'')])
   \<and> primitive (getPropOpt (JObj [(''customCode'', JStr ''<script></script>'')]) ''customCode'')
   \<and> handle PutCustomCode sample_config
         \<lparr>req_method = ''PUT'', req_params = [(''page_id'', ''p1'')],
          req_headers = [], req_body = JObj [(''customCode'', JStr ''<script></script>'')]\<rparr>
         (world_of [Reply 200 (JsonBody JNull)])
       = (Inr \<lparr>res_status = 400,
               res_body = JObj [(''error'', JStr ''Valid customCode object is required.'')]\<rparr>,
          world_of [Reply 200 (JsonBody JNull)])
   \<and> handle WebflowPost sample_config
         \<lparr>req_method = ''POST'', req_params = [], req_headers = [],
          req_body = JObj [(''fieldData'', JNum 5)]\<rparr>
         (world_of [Reply 200 (JsonBody JNull)])
       = (Inr \<lparr>res_status = 200, res_body = JNull\<rparr>,
          \<lparr>script = [],
           log = [\<lparr>out_method = ''POST'',
                   out_url = ''https://api.webflow.com/v2/collections/6494e10f7a143f705f4db1d2/items'',
                   out_headers = [(''accept'', JStr ''application/json''),
                                  (''authorization'', JStr ''Bearer key''),
                                  (''content-type'', JStr ''application/json'')],
                   out_params = JUndefined,
                   out_body = Stringified (JObj [(''isArchived'', JBool False), (''isDraft'', JBool False),
                                (''fieldData'', JObj [(''name'', JUndefined)])])\<rparr>]\<rparr>)
   \<and> length (log \<lparr>script = [],
           log = [\<lparr>out_method = ''POST'',
                   out_url = ''https://api.webflow.com/v2/collections/6494e10f7a143f705f4db1d2/items'',
                   out_headers = [(''accept'', JStr ''application/json''),
                                  (''authorization'', JStr ''Bearer key''),
                                  (''content-type'', JStr ''application/json'')],
                   out_params = JUndefined,
                   out_body = Stringified (JObj [(''isArchived'', JBool False), (''isDraft'', JBool False),
                                (''fieldData'', JObj [(''name'', JUndefined)])])\<rparr>]\<rparr>)
       = Suc (length (log (world_of [Reply 200 (JsonBody JNull)])))"
  using invalid_body_field_400 [of PutCustomCode "''customCode''" "''page_id''"
      "\<lparr>req_method = ''PUT'', req_params = [(''page_id'', ''p1'')],
        req_headers = [], req_body = JObj [(''customCode'', JStr ''<script></script>'')]\<rparr>"
      sample_config "world_of [Reply 200 (JsonBody JNull)]"]
    invalid_body_field_400 [of WebflowPost "''fieldData''" "''page_id''"
      "\<lparr>req_method = ''POST'', req_params = [], req_headers = [],
        req_body = JObj [(''fieldData'', JNum 5)]\<rparr>"
      sample_config "world_of [Reply 200 (JsonBody JNull)]"]
  by (simp add: nullish_def getPropOpt_def param_def webflow_post_def fetch_headers_def
      stringify_body_def fetch_def send_def world_of_def sample_config_def is2xx_def
      response_json_def respond_def)

text \<open>
  The claim as stated fails on \<open>POST /webflow\<close>: a body whose \<open>fieldData\<close> is a string
  is not refused, its request goes upstream and the upstream's answer comes back. And on
  a checking route an array given as \<open>fieldData\<close> passes the check and is sent upstream.
\<close>

theorem body_field_counterexample:
  "primitive (JStr ''abc'')
   \<and> handle WebflowPost sample_config
        \<lparr>req_method = ''POST'', req_params = [], req_headers = [],
         req_body = JObj [(''fieldData'', JStr ''abc'')]\<rparr>
        (world_of [Reply 200 (JsonBody (JObj [(''id'', JStr ''i9'')]))])
     = (Inr \<lparr>res_status = 200, res_body = JObj [(''id'', JStr ''i9'')]\<rparr>,
        \<lparr>script = [],
         log = [\<lparr>out_method = ''POST'',
                 out_url = ''https://api.webflow.com/v2/collections/6494e10f7a143f705f4db1d2/items'',
                 out_headers = [(''accept'', JStr ''application/json''),
                                (''authorization'', JStr ''Bearer key''),
                                (''content-type'', JStr ''application/json'')],
                 out_params = JUndefined,
                 out_body = Stringified (JObj [(''isArchived'', JBool False), (''isDraft'', JBool False),
                              (''fieldData'', JObj [(''name'', JUndefined)])])\<rparr>]\<rparr>)
   \<and> handle PutPageMeta sample_config
        \<lparr>req_method = ''PUT'', req_params = [(''page_id'', ''p1'')],
         req_headers = [], req_body = JObj [(''fieldData'', JArr [])]\<rparr>
        (world_of [Reply 200 (JsonBody (JObj []))])
     = (Inr \<lparr>res_status = 200, res_body = JObj []\<rparr>,
        \<lparr>script = [],
         log = [\<lparr>out_method = ''PUT'', out_url = ''https://api.webflow.com/pages/p1'',
                 out_headers = [(''accept'', JStr ''application/json''),
                                (''authorization'', JStr ''Bearer key''),
                                (''content-type'', JStr ''application/json'')],
                 out_params = JUndefined,
                 out_body = Data (JObj [(''fieldData'', JArr [])])\<rparr>]\<rparr>)"
  by (simp add: webflow_post_def fetch_headers_def stringify_body_def fetch_def
      response_json_def put_page_meta_def param_def makeWebflowRequest_def axios_def send_def
      world_of_def sample_config_def is2xx_def axios_data_def respond_def toUpperCase_def
      upper_char_def)

text \<open>
  C9. \<open>POST /webflow\<close> of the node-fetch variant has no validation: when \<open>fieldData\<close> is
  missing (or \<open>null\<close>) in the body, reading \<open>fieldData.name\<close> throws a \<open>TypeError\<close> that
  leaves the handler, with no response sent by it, no outbound call made and its
  \<open>catch\<close> block not entered; and whenever the handler does respond, it has made its
  outbound call first, so no response of it is a local validation answer.
\<close>

theorem webflow_post_no_validation:
  "(nullish (getPropOpt (req_body rq) ''fieldData'') \<longrightarrow>
      webflow_post cfg rq w = (Inl TypeError, w))
   \<and> (\<forall>resp w'. webflow_post cfg rq w = (Inr resp, w') \<longrightarrow>
         length (log w') = Suc (length (log w)))"
proof (intro conjI impI allI)
  assume n: "nullish (getPropOpt (req_body rq) ''fieldData'')"
  show "webflow_post cfg rq w = (Inl TypeError, w)"
  proof (cases "nullish (req_body rq)")
    case True
    then show ?thesis by (simp add: webflow_post_def getProp_nullish)
  next
    case False
    then show ?thesis using n
      by (simp add: webflow_post_def getProp_defined getProp_nullish)
  qed
next
  fix resp w'
  assume "webflow_post cfg rq w = (Inr resp, w')"
  then show "length (log w') = Suc (length (log w))"
    by (rule webflow_post_responds_after_call)
qed

theorem webflow_post_no_validation_witness:
  "nullish (getPropOpt (JObj [(''name'', JStr ''Rex'')]) ''fieldData'')
   \<and> webflow_post sample_config
        \<lparr>req_method = ''POST'', req_params = [], req_headers = [],
         req_body = JObj [(''name'', JStr ''Rex'')]\<rparr>
        (world_of [Reply 200 (JsonBody JNull)])
      = (Inl TypeError, world_of [Reply 200 (JsonBody JNull)])"
  using webflow_post_no_validation [of
      "\<lparr>req_method = ''POST'', req_params = [], req_headers = [],
        req_body = JObj [(''name'', JStr ''Rex'')]\<rparr>"
      sample_config "world_of [Reply 200 (JsonBody JNull)]"]
  by (simp add: nullish_def getPropOpt_def)


section \<open>The log of outbound calls\<close>

lemma fetch_log: "log (snd (fetch rq w)) = log w @ [rq]"
  by (simp add: fetch_def send_def split: list.splits reply.splits)

lemma axios_log: "log (snd (axios rq w)) = log w @ [rq]"
  by (simp add: axios_def send_def split: list.splits reply.splits)

lemma fetch_reply:
  "script w = Reply s p # rest \<Longrightarrow>
   fetch rq w = (Inr (s, p), w\<lparr>script := rest, log := log w @ [rq]\<rparr>)"
  by (simp add: fetch_def send_def)

lemma refreshToken_log: "log (snd (refreshToken w)) = log w @ [token_request]"
  by (simp add: refreshToken_def fetch_def send_def
      split: list.splits reply.splits sum.splits prod.splits)

lemma refreshToken_json:
  assumes "script w = Reply s (JsonBody j) # rest" "\<not> nullish j"
  shows "refreshToken w =
           (Inr (getPropOpt j ''access_token''),
            w\<lparr>script := rest, log := log w @ [token_request]\<rparr>)"
  using assms by (simp add: refreshToken_def fetch_reply response_json_def getProp_defined)

lemma foxycart_log_failed:
  assumes "fst (refreshToken w) = Inl e"
  shows "log (snd (foxycart cfg rq w)) = log w @ [token_request]"
proof -
  obtain w1 where r: "refreshToken w = (Inl e, w1)"
    using assms by (cases "refreshToken w") simp
  then have "log w1 = log w @ [token_request]"
    using refreshToken_log [of w] by simp
  with r show ?thesis by (simp add: foxycart_def)
qed

lemma foxycart_log_forwarded:
  assumes "fst (refreshToken w) = Inr tok"
  shows "log (snd (foxycart cfg rq w)) = log w @ [token_request, foxycart_request rq tok]"
proof -
  obtain w1 where r: "refreshToken w = (Inr tok, w1)"
    using assms by (cases "refreshToken w") simp
  then have l1: "log w1 = log w @ [token_request]"
    using refreshToken_log [of w] by simp
  obtain r2 w2 where f: "fetch (foxycart_request rq tok) w1 = (r2, w2)"
    by (cases "fetch (foxycart_request rq tok) w1")
  then have "log w2 = log w1 @ [foxycart_request rq tok]"
    using fetch_log [of "foxycart_request rq tok" w1] by simp
  with r l1 f show ?thesis
    by (simp add: foxycart_def split: sum.splits)
qed

lemma proxy_log: "log (snd (proxy cfg rq w)) = log w @ [proxy_request rq]"
proof -
  obtain r w1 where f: "fetch (proxy_request rq) w = (r, w1)"
    by (cases "fetch (proxy_request rq) w")
  then have "log w1 = log w @ [proxy_request rq]"
    using fetch_log [of "proxy_request rq" w] by simp
  with f show ?thesis by (simp add: proxy_def split: sum.splits)
qed

lemma makeWebflowRequest_log:
  "\<exists>fwd. log (snd (makeWebflowRequest cfg m e d w)) = log w @ [fwd]
     \<and> out_body fwd =
         (if truthy d \<and> toUpperCase m \<noteq> ''GET'' \<and> toUpperCase m \<noteq> ''HEAD''
          then Data d else NoBody)"
proof -
  let ?c = "\<lparr>out_method = m, out_url = ''https://api.webflow.com'' @ e,
             out_headers = [(''accept'', JStr ''application/json''),
               (''authorization'', JStr (''Bearer '' @ toStr (WEBFLOW_API_KEY cfg))),
               (''content-type'', JStr ''application/json'')],
             out_params = JUndefined,
             out_body = (if truthy d \<and> toUpperCase m \<noteq> ''GET'' \<and> toUpperCase m \<noteq> ''HEAD''
                         then Data d else NoBody)\<rparr>"
  have "log (snd (makeWebflowRequest cfg m e d w)) = log (snd (axios ?c w))"
    by (auto simp: makeWebflowRequest_def Let_def split: prod.splits axios_result.splits)
  then show ?thesis
    using axios_log [of ?c w] by auto
qed

lemma makeAirtableRequest_log:
  "\<exists>fwd. log (snd (makeAirtableRequest cfg m path ps d w)) = log w @ [fwd]
     \<and> out_body fwd =
         (if truthy d \<and> toUpperCase m \<noteq> ''GET'' \<and> toUpperCase m \<noteq> ''HEAD''
          then Data d else NoBody)"
proof -
  let ?c = "\<lparr>out_method = m,
             out_url = ''https://api.airtable.com/v0/'' @ toStr (AIRTABLE_BASE_ID cfg) @ ''/'' @ path,
             out_headers = [(''Authorization'', JStr (''Bearer '' @ toStr (AIRTABLE_API_KEY cfg))),
               (''Content-Type'', JStr ''application/json'')],
             out_params = (if truthy ps then ps else JUndefined),
             out_body = (if truthy d \<and> toUpperCase m \<noteq> ''GET'' \<and> toUpperCase m \<noteq> ''HEAD''
                         then Data d else NoBody)\<rparr>"
  have "log (snd (makeAirtableRequest cfg m path ps d w)) = log (snd (axios ?c w))"
    by (auto simp: makeAirtableRequest_def Let_def split: prod.splits axios_result.splits)
  then show ?thesis
    using axios_log [of ?c w] by auto
qed

lemmas sample_defs =
  sample_config_def sample_proxy_request_def sample_cart_request_def world_of_def
  not_found_def param_def

lemmas client_defs =
  fetch_def axios_def send_def is2xx_def response_json_def axios_data_def respond_def
  relay_def andThen_def

section \<open>Token refresh\<close>

lemma refreshToken_cases:
  "fst (refreshToken w) =
     (case script w of
        [] \<Rightarrow> Inl (FetchError ''no reply'')
      | NoReply m # rest \<Rightarrow> Inl (FetchError m)
      | Reply s (TextBody t m) # rest \<Rightarrow> Inl (InvalidJson m)
      | Reply s (JsonBody j) # rest \<Rightarrow>
          if nullish j then Inl TypeError else Inr (getPropOpt j ''access_token''))"
  by (auto simp: refreshToken_def fetch_def send_def response_json_def getProp_defined
      getProp_nullish
      split: list.splits reply.splits payload.splits)

text \<open>
  C6. Every invocation of the \<open>/foxycart/*\<close> handler first sends the token request: a
  \<open>POST\<close> to \<open>https://api.foxycart.com/token\<close> with the refresh-token grant as a form.
  Only when the answer to it is a JSON value other than \<open>null\<close> does one more call
  follow, the forward to \<open>https://api.foxycart.com/<endpoint>\<close>, whose \<open>Authorization\<close>
  header carries the \<open>access_token\<close> of that very answer. So a forward is always
  immediately preceded by the token request of the same invocation. Nothing but the
  request and the upstream's answers enters the handler: it has no token store, and its
  result does not depend on the configuration.
\<close>

theorem foxycart_token_first:
  "log (snd (foxycart cfg rq w)) =
     log w @
     \<lparr>out_method = ''POST'',
      out_url = ''https://api.foxycart.com/token'',
      out_headers = [(''Content-Type'', JStr ''application/x-www-form-urlencoded'')],
      out_params = JUndefined,
      out_body = Form [(''grant_type'', ''refresh_token''),
                       (''refresh_token'', ''XbuTTBW9R6sRHWvKvnYYuJkpAIYnLaZeKHsjAL1D''),
                       (''client_id'', ''client_gsIC67wRNWDFk9UPUjNV''),
                       (''client_secret'', ''gsGeQmYYlWgk3GPkBLsbmTpq7GSt4lrwHHNi1IQm'')]\<rparr>
     # (case script w of
          Reply s (JsonBody j) # rest \<Rightarrow>
            if nullish j then []
            else [\<lparr>out_method = req_method rq,
                   out_url = ''https://api.foxycart.com/'' @ toStr (param rq ''endpoint'')
                             @ toStr (js_or (param rq ''0'') (JStr [])),
                   out_headers =
                     [(''Authorization'', JStr (''Bearer '' @ toStr (getPropOpt j ''access_token''))),
                      (''FOXY-API-VERSION'', JStr ''1''),
                      (''Content-Type'', js_or (req_get rq ''Content-Type'') (JStr ''application/json''))],
                   out_params = JUndefined,
                   out_body =
                     (if (req_method rq = ''POST'' \<or> req_method rq = ''PUT'')
                         \<and> req_body rq \<noteq> JUndefined
                      then Stringified (req_body rq) else NoBody)\<rparr>]
        | _ \<Rightarrow> [])
   \<and> foxycart cfg rq w = foxycart cfg' rq w"
proof
  have fwd: "\<And>tok. foxycart_request rq tok =
      \<lparr>out_method = req_method rq,
       out_url = ''https://api.foxycart.com/'' @ toStr (param rq ''endpoint'')
                 @ toStr (js_or (param rq ''0'') (JStr [])),
       out_headers =
         [(''Authorization'', JStr (''Bearer '' @ toStr tok)),
          (''FOXY-API-VERSION'', JStr ''1''),
          (''Content-Type'', js_or (req_get rq ''Content-Type'') (JStr ''application/json''))],
       out_params = JUndefined,
       out_body =
         (if (req_method rq = ''POST'' \<or> req_method rq = ''PUT'') \<and> req_body rq \<noteq> JUndefined
          then Stringified (req_body rq) else NoBody)\<rparr>"
    by (simp add: foxycart_request_def forwarded_body_def stringify_body_def)
  have "log (snd (foxycart cfg rq w)) =
     log w @ token_request #
       (case script w of
          Reply s (JsonBody j) # rest \<Rightarrow>
            if nullish j then [] else [foxycart_request rq (getPropOpt j ''access_token'')]
        | _ \<Rightarrow> [])"
  proof (cases "fst (refreshToken w)")
    case (Inl e)
    then have "case script w of
                 Reply s (JsonBody j) # rest \<Rightarrow> nullish j
               | _ \<Rightarrow> True"
      using refreshToken_cases [of w]
      by (auto split: list.splits reply.splits payload.splits if_splits)
    then have "(case script w of
          Reply s (JsonBody j) # rest \<Rightarrow>
            if nullish j then [] else [foxycart_request rq (getPropOpt j ''access_token'')]
        | _ \<Rightarrow> []) = []"
      by (auto split: list.splits reply.splits payload.splits)
    then show ?thesis
      using foxycart_log_failed [OF Inl, of cfg rq] by simp
  next
    case (Inr tok)
    then have "\<exists>s j rest. script w = Reply s (JsonBody j) # rest \<and> \<not> nullish j
                 \<and> tok = getPropOpt j ''access_token''"
      using refreshToken_cases [of w]
      by (auto split: list.splits reply.splits payload.splits if_splits)
    then show ?thesis
      using foxycart_log_forwarded [OF Inr, of cfg rq] by auto
  qed
  then show "log (snd (foxycart cfg rq w)) =
     log w @
     \<lparr>out_method = ''POST'',
      out_url = ''https://api.foxycart.com/token'',
      out_headers = [(''Content-Type'', JStr ''application/x-www-form-urlencoded'')],
      out_params = JUndefined,
      out_body = Form [(''grant_type'', ''refresh_token''),
                       (''refresh_token'', ''XbuTTBW9R6sRHWvKvnYYuJkpAIYnLaZeKHsjAL1D''),
                       (''client_id'', ''client_gsIC67wRNWDFk9UPUjNV''),
                       (''client_secret'', ''gsGeQmYYlWgk3GPkBLsbmTpq7GSt4lrwHHNi1IQm'')]\<rparr>
     # (case script w of
          Reply s (JsonBody j) # rest \<Rightarrow>
            if nullish j then []
            else [\<lparr>out_method = req_method rq,
                   out_url = ''https://api.foxycart.com/'' @ toStr (param rq ''endpoint'')
                             @ toStr (js_or (param rq ''0'') (JStr [])),
                   out_headers =
                     [(''Authorization'', JStr (''Bearer '' @ toStr (getPropOpt j ''access_token''))),
                      (''FOXY-API-VERSION'', JStr ''1''),
                      (''Content-Type'', js_or (req_get rq ''Content-Type'') (JStr ''application/json''))],
                   out_params = JUndefined,
                   out_body =
                     (if (req_method rq = ''POST'' \<or> req_method rq = ''PUT'')
                         \<and> req_body rq \<noteq> JUndefined
                      then Stringified (req_body rq) else NoBody)\<rparr>]
        | _ \<Rightarrow> [])"
    by (simp only: fwd token_request_def)
  show "foxycart cfg rq w = foxycart cfg' rq w"
    by (simp add: foxycart_def)
qed

theorem foxycart_token_first_witness:
  "log (snd (foxycart sample_config (sample_cart_request ''GET'')
         (world_of [Reply 200 (JsonBody (JObj [(''access_token'', JStr ''t1'')])),
                    Reply 200 (JsonBody (JObj []))])))
   = [\<lparr>out_method = ''POST'',
       out_url = ''https://api.foxycart.com/token'',
       out_headers = [(''Content-Type'', JStr ''application/x-www-form-urlencoded'')],
       out_params = JUndefined,
       out_body = Form [(''grant_type'', ''refresh_token''),
                        (''refresh_token'', ''XbuTTBW9R6sRHWvKvnYYuJkpAIYnLaZeKHsjAL1D''),
                        (''client_id'', ''client_gsIC67wRNWDFk9UPUjNV''),
                        (''client_secret'', ''gsGeQmYYlWgk3GPkBLsbmTpq7GSt4lrwHHNi1IQm'')]\<rparr>,
      \<lparr>out_method = ''GET'', out_url = ''https://api.foxycart.com/carts/42'',
       out_headers = [(''Authorization'', JStr ''Bearer t1''),
                      (''FOXY-API-VERSION'', JStr ''1''),
                      (''Content-Type'', JStr ''application/json'')],
       out_params = JUndefined, out_body = NoBody\<rparr>]"
  using foxycart_token_first [of sample_config "sample_cart_request ''GET''"
      "world_of [Reply 200 (JsonBody (JObj [(''access_token'', JStr ''t1'')])),
                 Reply 200 (JsonBody (JObj []))]" sample_config]
  by (simp add: getPropOpt_def nullish_def req_get_def toLowerCase_def lower_char_def
      js_or_def sample_defs)

text \<open>
  C10, as amended. \<open>refreshToken\<close> does not look at the status of the token endpoint's
  reply: for every status and every body that parses as JSON to a value other than
  \<open>null\<close>, it returns the \<open>access_token\<close> property of that value, \<open>undefined\<close> when the
  property is absent; and then \<open>/foxycart/*\<close> forwards the request to the cart API with
  the header \<open>Authorization: Bearer undefined\<close>. On a body that is not JSON, or is
  \<open>null\<close>, \<open>refreshToken\<close> throws, and the route answers 500 with its fixed message
  after the token request alone, without a forward.
\<close>

theorem refreshToken_unvalidated:
  "(script w = Reply s (JsonBody j) # rest \<and> \<not> nullish j \<longrightarrow>
      refreshToken w =
        (Inr (getPropOpt j ''access_token''),
         w\<lparr>script := rest, log := log w @ [token_request]\<rparr>)
      \<and> (getPropOpt j ''access_token'' = JUndefined \<longrightarrow>
           (\<exists>fwd. log (snd (foxycart cfg rq w)) = log w @ [token_request, fwd]
              \<and> out_method fwd = req_method rq
              \<and> out_url fwd = ''https://api.foxycart.com/'' @ toStr (param rq ''endpoint'')
                               @ toStr (js_or (param rq ''0'') (JStr []))
              \<and> map_of (out_headers fwd) ''Authorization'' = Some (JStr ''Bearer undefined''))))
   \<and> (script w = Reply s (JsonBody JNull) # rest \<longrightarrow>
        fst (refreshToken w) = Inl TypeError
        \<and> foxycart cfg rq w =
            (Inr \<lparr>res_status = 500,
                  res_body = JObj [(''error'', JStr ''Error fetching data from FoxyCart API'')]\<rparr>,
             w\<lparr>script := rest, log := log w @ [token_request]\<rparr>))
   \<and> (script w = Reply s (TextBody t m) # rest \<longrightarrow>
        fst (refreshToken w) = Inl (InvalidJson m)
        \<and> foxycart cfg rq w =
            (Inr \<lparr>res_status = 500,
                  res_body = JObj [(''error'', JStr ''Error fetching data from FoxyCart API'')]\<rparr>,
             w\<lparr>script := rest, log := log w @ [token_request]\<rparr>))"
proof (intro conjI impI)
  assume a: "script w = Reply s (JsonBody j) # rest \<and> \<not> nullish j"
  then show r: "refreshToken w =
        (Inr (getPropOpt j ''access_token''),
         w\<lparr>script := rest, log := log w @ [token_request]\<rparr>)"
    by (simp add: refreshToken_json)
  assume u: "getPropOpt j ''access_token'' = JUndefined"
  have "log (snd (foxycart cfg rq w)) = log w @ [token_request, foxycart_request rq JUndefined]"
    using foxycart_log_forwarded [of w JUndefined cfg rq] r u by simp
  moreover have "map_of (out_headers (foxycart_request rq JUndefined)) ''Authorization''
                   = Some (JStr ''Bearer undefined'')"
    by (simp add: foxycart_request_def)
  moreover have "out_method (foxycart_request rq JUndefined) = req_method rq"
    by (simp add: foxycart_request_def)
  moreover have "out_url (foxycart_request rq JUndefined) =
      ''https://api.foxycart.com/'' @ toStr (param rq ''endpoint'')
        @ toStr (js_or (param rq ''0'') (JStr []))"
    by (simp add: foxycart_request_def)
  ultimately show "\<exists>fwd. log (snd (foxycart cfg rq w)) = log w @ [token_request, fwd]
              \<and> out_method fwd = req_method rq
              \<and> out_url fwd = ''https://api.foxycart.com/'' @ toStr (param rq ''endpoint'')
                               @ toStr (js_or (param rq ''0'') (JStr []))
              \<and> map_of (out_headers fwd) ''Authorization'' = Some (JStr ''Bearer undefined'')"
    by blast
next
  assume "script w = Reply s (JsonBody JNull) # rest"
  then show "fst (refreshToken w) = Inl TypeError"
    by (simp add: refreshToken_def fetch_reply response_json_def)
next
  assume "script w = Reply s (JsonBody JNull) # rest"
  then show "foxycart cfg rq w =
            (Inr \<lparr>res_status = 500,
                  res_body = JObj [(''error'', JStr ''Error fetching data from FoxyCart API'')]\<rparr>,
             w\<lparr>script := rest, log := log w @ [token_request]\<rparr>)"
    by (simp add: foxycart_def refreshToken_def fetch_reply response_json_def respond_def)
next
  assume "script w = Reply s (TextBody t m) # rest"
  then show "fst (refreshToken w) = Inl (InvalidJson m)"
    by (simp add: refreshToken_def fetch_reply response_json_def)
next
  assume "script w = Reply s (TextBody t m) # rest"
  then show "foxycart cfg rq w =
            (Inr \<lparr>res_status = 500,
                  res_body = JObj [(''error'', JStr ''Error fetching data from FoxyCart API'')]\<rparr>,
             w\<lparr>script := rest, log := log w @ [token_request]\<rparr>)"
    by (simp add: foxycart_def refreshToken_def fetch_reply response_json_def respond_def)
qed

theorem refreshToken_unvalidated_witness:
  "script (world_of [Reply 400 (JsonBody (JObj [(''error'', JStr ''invalid_grant'')])),
                     Reply 401 (JsonBody JNull)])
     = Reply 400 (JsonBody (JObj [(''error'', JStr ''invalid_grant'')])) # [Reply 401 (JsonBody JNull)]
   \<and> \<not> nullish (JObj [(''error'', JStr ''invalid_grant'')])
   \<and> getPropOpt (JObj [(''error'', JStr ''invalid_grant'')]) ''access_token'' = JUndefined
   \<and> refreshToken (world_of [Reply 400 (JsonBody (JObj [(''error'', JStr ''invalid_grant'')])),
                              Reply 401 (JsonBody JNull)])
       = (Inr JUndefined, \<lparr>script = [Reply 401 (JsonBody JNull)], log = [token_request]\<rparr>)
   \<and> (\<exists>fwd. log (snd (foxycart sample_config (sample_cart_request ''GET'')
                (world_of [Reply 400 (JsonBody (JObj [(''error'', JStr ''invalid_grant'')])),
                           Reply 401 (JsonBody JNull)])))
             = [token_request, fwd]
          \<and> out_method fwd = ''GET''
          \<and> out_url fwd = ''https://api.foxycart.com/carts/42''
          \<and> map_of (out_headers fwd) ''Authorization'' = Some (JStr ''Bearer undefined''))
   \<and> script (world_of [Reply 502 (TextBody ''<html>Bad Gateway</html>'' ''Unexpected token <'')])
       = Reply 502 (TextBody ''<html>Bad Gateway</html>'' ''Unexpected token <'') # []
   \<and> foxycart sample_config (sample_cart_request ''GET'')
        (world_of [Reply 502 (TextBody ''<html>Bad Gateway</html>'' ''Unexpected token <'')])
       = (Inr \<lparr>res_status = 500,
               res_body = JObj [(''error'', JStr ''Error fetching data from FoxyCart API'')]\<rparr>,
          \<lparr>script = [], log = [token_request]\<rparr>)
   \<and> script (world_of [Reply 200 (JsonBody JNull)]) = Reply 200 (JsonBody JNull) # []
   \<and> foxycart sample_config (sample_cart_request ''GET'') (world_of [Reply 200 (JsonBody JNull)])
       = (Inr \<lparr>res_status = 500,
               res_body = JObj [(''error'', JStr ''Error fetching data from FoxyCart API'')]\<rparr>,
          \<lparr>script = [], log = [token_request]\<rparr>)"
  using refreshToken_unvalidated [of
      "world_of [Reply 400 (JsonBody (JObj [(''error'', JStr ''invalid_grant'')])),
                 Reply 401 (JsonBody JNull)]"
      400 "JObj [(''error'', JStr ''invalid_grant'')]" "[Reply 401 (JsonBody JNull)]"
      sample_config "sample_cart_request ''GET''"]
    refreshToken_unvalidated [of
      "world_of [Reply 502 (TextBody ''<html>Bad Gateway</html>'' ''Unexpected token <'')]"
      502 JNull "[]" sample_config "sample_cart_request ''GET''"
      "''<html>Bad Gateway</html>''" "''Unexpected token <''"]
    refreshToken_unvalidated [of
      "world_of [Reply 200 (JsonBody JNull)]"
      200 JNull "[]" sample_config "sample_cart_request ''GET''"]
  by (simp add: nullish_def getPropOpt_def js_or_def sample_defs)

text \<open>
  The claim as stated fails on the body \<open>null\<close>: \<open>refreshToken\<close> returns no value, and
  the route stops at the token refresh, answering 500 without a forward.
\<close>

theorem refreshToken_null_body_counterexample:
  "refreshToken (world_of [Reply 200 (JsonBody JNull), Reply 200 (JsonBody (JObj []))])
     = (Inl TypeError, \<lparr>script = [Reply 200 (JsonBody (JObj []))], log = [token_request]\<rparr>)
   \<and> foxycart sample_config (sample_cart_request ''GET'')
        (world_of [Reply 200 (JsonBody JNull), Reply 200 (JsonBody (JObj []))])
     = (Inr \<lparr>res_status = 500,
             res_body = JObj [(''error'', JStr ''Error fetching data from FoxyCart API'')]\<rparr>,
        \<lparr>script = [Reply 200 (JsonBody (JObj []))], log = [token_request]\<rparr>)"
  by (simp add: foxycart_def refreshToken_def sample_defs client_defs)


section \<open>Forwarding\<close>

lemma proxy_ok:
  assumes "script w = Reply s (JsonBody j) # rest" "is2xx s"
  shows "proxy cfg rq w =
           (Inr \<lparr>res_status = 200, res_body = j\<rparr>,
            w\<lparr>script := rest, log := log w @ [proxy_request rq]\<rparr>)"
  using assms
  by (simp add: proxy_def fetch_reply relay_def response_json_def andThen_def respond_def)

lemma forwarded_body_cases:
  "req_body rq \<noteq> JUndefined \<Longrightarrow>
   forwarded_body rq =
     (if req_method rq = ''POST'' \<or> req_method rq = ''PUT''
      then Stringified (req_body rq) else NoBody)"
  by (simp add: forwarded_body_def stringify_body_def)

text \<open>
  C2, as amended. For every request to \<open>/proxy/*\<close> the handler makes exactly one outbound
  call: to the URL given in the path, with the inbound method; with the serialised inbound
  body when the method is \<open>POST\<close> or \<open>PUT\<close> (none when \<open>req.body\<close> is \<open>undefined\<close>), and
  with no body for any other method. When
  the upstream answers 2xx with a JSON body, the caller receives status 200 and the value
  parsed from that body, which \<open>res.json\<close> serialises again.
\<close>

theorem proxy_forwarding:
  "\<exists>fwd. log (snd (proxy cfg rq w)) = log w @ [fwd]
     \<and> out_method fwd = req_method rq
     \<and> out_url fwd = toStr (param rq ''0'')
     \<and> out_body fwd =
         (if (req_method rq = ''POST'' \<or> req_method rq = ''PUT'') \<and> req_body rq \<noteq> JUndefined
          then Stringified (req_body rq) else NoBody)
     \<and> (\<forall>s j rest. script w = Reply s (JsonBody j) # rest \<and> is2xx s \<longrightarrow>
           fst (proxy cfg rq w) = Inr \<lparr>res_status = 200, res_body = j\<rparr>)"
proof -
  have "out_body (proxy_request rq) =
         (if (req_method rq = ''POST'' \<or> req_method rq = ''PUT'') \<and> req_body rq \<noteq> JUndefined
          then Stringified (req_body rq) else NoBody)"
    by (simp add: proxy_request_def forwarded_body_def stringify_body_def)
  moreover have "out_method (proxy_request rq) = req_method rq"
    and "out_url (proxy_request rq) = toStr (param rq ''0'')"
    by (simp_all add: proxy_request_def)
  moreover have "\<forall>s j rest. script w = Reply s (JsonBody j) # rest \<and> is2xx s \<longrightarrow>
           fst (proxy cfg rq w) = Inr \<lparr>res_status = 200, res_body = j\<rparr>"
    by (auto simp: proxy_ok)
  ultimately show ?thesis
    using proxy_log [of cfg rq w] by blast
qed

theorem proxy_forwarding_witness:
  "script (world_of [Reply 201 (JsonBody (JObj [(''id'', JNum 7)]))])
     = Reply 201 (JsonBody (JObj [(''id'', JNum 7)])) # []
   \<and> is2xx 201
   \<and> fst (proxy sample_config (sample_proxy_request ''POST'')
        (world_of [Reply 201 (JsonBody (JObj [(''id'', JNum 7)]))]))
     = Inr \<lparr>res_status = 200, res_body = JObj [(''id'', JNum 7)]\<rparr>
   \<and> map out_method (log (snd (proxy sample_config (sample_proxy_request ''POST'')
        (world_of [Reply 201 (JsonBody (JObj [(''id'', JNum 7)]))])))) = [''POST'']
   \<and> map out_url (log (snd (proxy sample_config (sample_proxy_request ''POST'')
        (world_of [Reply 201 (JsonBody (JObj [(''id'', JNum 7)]))]))))
     = [''https://api.example.com/items/7'']
   \<and> map out_body (log (snd (proxy sample_config (sample_proxy_request ''POST'')
        (world_of [Reply 201 (JsonBody (JObj [(''id'', JNum 7)]))]))))
     = [Stringified (JObj [(''name'', JStr ''Rex'')])]"
  using proxy_forwarding [of sample_config "sample_proxy_request ''POST''"
      "world_of [Reply 201 (JsonBody (JObj [(''id'', JNum 7)]))]"]
  by (simp add: proxy_def proxy_request_def forwarded_body_def stringify_body_def
      sample_defs client_defs)

text \<open>
  The claim as stated fails on a \<open>PATCH\<close> request as Node hands it over, header names in
  lower case: the body is not forwarded, and the inbound \<open>host\<close> and \<open>origin\<close> entries
  are still in the outbound header object.
\<close>

theorem proxy_patch_counterexample:
  "snd (proxy sample_config (sample_proxy_request ''PATCH'')
          (world_of [Reply 200 (JsonBody (JObj []))]))
     = \<lparr>script = [],
        log = [\<lparr>out_method = ''PATCH'',
                out_url = ''https://api.example.com/items/7'',
                out_headers = [(''host'', JStr ''relay.example.com''),
                               (''origin'', JStr ''https://www.sportdogfood.com''),
                               (''content-type'', JStr ''application/json''),
                               (''Host'', JUndefined), (''Origin'', JUndefined)],
                out_params = JUndefined,
                out_body = NoBody\<rparr>]\<rparr>
   \<and> req_body (sample_proxy_request ''PATCH'') = JObj [(''name'', JStr ''Rex'')]
   \<and> header_present (out_headers (proxy_request (sample_proxy_request ''PATCH''))) ''Host''
   \<and> header_present (out_headers (proxy_request (sample_proxy_request ''PATCH''))) ''Origin''"
  by (simp add: proxy_def proxy_request_def forwarded_body_def header_present_def
      toLowerCase_def lower_char_def sample_defs client_defs)

text \<open>
  C3, as amended. The request helpers of the axios variants attach a truthy \<open>data\<close>
  exactly when the upper-cased method is neither \<open>GET\<close> nor \<open>HEAD\<close>. The two forwarding
  routes \<open>/proxy/*\<close> and \<open>/foxycart/*\<close> attach the inbound body exactly when the method
  is \<open>POST\<close> or \<open>PUT\<close>; a body sent with \<open>PATCH\<close>, \<open>DELETE\<close> or any other method is
  dropped.
\<close>

theorem body_forwarding_rule:
  "(truthy d \<longrightarrow>
      (\<exists>fwd. log (snd (makeWebflowRequest cfg m e d w)) = log w @ [fwd]
         \<and> out_body fwd =
             (if toUpperCase m = ''GET'' \<or> toUpperCase m = ''HEAD'' then NoBody else Data d))
      \<and> (\<exists>fwd. log (snd (makeAirtableRequest cfg m e ps d w)) = log w @ [fwd]
         \<and> out_body fwd =
             (if toUpperCase m = ''GET'' \<or> toUpperCase m = ''HEAD'' then NoBody else Data d)))
   \<and> (req_body rq \<noteq> JUndefined \<longrightarrow>
      (\<exists>fwd. log (snd (proxy cfg rq w)) = log w @ [fwd]
         \<and> out_body fwd =
             (if req_method rq = ''POST'' \<or> req_method rq = ''PUT''
              then Stringified (req_body rq) else NoBody))
      \<and> (\<forall>tok. fst (refreshToken w) = Inr tok \<longrightarrow>
           (\<exists>fwd. log (snd (foxycart cfg rq w)) = log w @ [token_request, fwd]
              \<and> out_body fwd =
                  (if req_method rq = ''POST'' \<or> req_method rq = ''PUT''
                   then Stringified (req_body rq) else NoBody))))"
proof (intro conjI impI allI)
  assume "truthy d"
  then show "\<exists>fwd. log (snd (makeWebflowRequest cfg m e d w)) = log w @ [fwd]
         \<and> out_body fwd =
             (if toUpperCase m = ''GET'' \<or> toUpperCase m = ''HEAD'' then NoBody else Data d)"
    using makeWebflowRequest_log [of cfg m e d w] by auto
next
  assume "truthy d"
  then show "\<exists>fwd. log (snd (makeAirtableRequest cfg m e ps d w)) = log w @ [fwd]
         \<and> out_body fwd =
             (if toUpperCase m = ''GET'' \<or> toUpperCase m = ''HEAD'' then NoBody else Data d)"
    using makeAirtableRequest_log [of cfg m e ps d w] by auto
next
  assume "req_body rq \<noteq> JUndefined"
  then have "out_body (proxy_request rq) =
      (if req_method rq = ''POST'' \<or> req_method rq = ''PUT''
       then Stringified (req_body rq) else NoBody)"
    by (simp add: proxy_request_def forwarded_body_cases)
  then show "\<exists>fwd. log (snd (proxy cfg rq w)) = log w @ [fwd]
         \<and> out_body fwd =
             (if req_method rq = ''POST'' \<or> req_method rq = ''PUT''
              then Stringified (req_body rq) else NoBody)"
    using proxy_log [of cfg rq w] by blast
next
  fix tok
  assume b: "req_body rq \<noteq> JUndefined" and t: "fst (refreshToken w) = Inr tok"
  from b have "out_body (foxycart_request rq tok) =
      (if req_method rq = ''POST'' \<or> req_method rq = ''PUT''
       then Stringified (req_body rq) else NoBody)"
    by (simp add: foxycart_request_def forwarded_body_cases)
  then show "\<exists>fwd. log (snd (foxycart cfg rq w)) = log w @ [token_request, fwd]
           \<and> out_body fwd =
               (if req_method rq = ''POST'' \<or> req_method rq = ''PUT''
                then Stringified (req_body rq) else NoBody)"
    using foxycart_log_forwarded [OF t, of cfg rq] by blast
qed

theorem body_forwarding_rule_witness:
  "truthy (JObj [(''fieldData'', JObj [])])
   \<and> log (snd (makeWebflowRequest sample_config ''patch'' ''/collections/c1/items/live''
              (JObj [(''fieldData'', JObj [])]) (world_of [])))
     = [\<lparr>out_method = ''patch'',
         out_url = ''https://api.webflow.com/collections/c1/items/live'',
         out_headers = [(''accept'', JStr ''application/json''),
                        (''authorization'', JStr ''Bearer key''),
                        (''content-type'', JStr ''application/json'')],
         out_params = JUndefined,
         out_body = Data (JObj [(''fieldData'', JObj [])])\<rparr>]
   \<and> req_body (sample_cart_request ''PUT'') \<noteq> JUndefined
   \<and> fst (refreshToken (world_of [Reply 200 (JsonBody (JObj [(''access_token'', JStr ''t1'')]))]))
       = Inr (JStr ''t1'')
   \<and> (\<exists>fwd. log (snd (foxycart sample_config (sample_cart_request ''PUT'')
                (world_of [Reply 200 (JsonBody (JObj [(''access_token'', JStr ''t1'')]))])))
             = [token_request, fwd]
          \<and> out_body fwd = Stringified (JObj [(''name'', JStr ''Rex'')]))"
  using body_forwarding_rule [of "JObj [(''fieldData'', JObj [])]" sample_config "''patch''"
      "''/collections/c1/items/live''" "world_of []" JUndefined "sample_cart_request ''PUT''"]
    body_forwarding_rule [of JUndefined sample_config "''GET''" "[]"
      "world_of [Reply 200 (JsonBody (JObj [(''access_token'', JStr ''t1'')]))]" JUndefined
      "sample_cart_request ''PUT''"]
  by (simp add: makeWebflowRequest_def refreshToken_def toUpperCase_def upper_char_def
      sample_defs client_defs)

text \<open>
  The claim as stated fails on \<open>/proxy/*\<close>: the body of a \<open>DELETE\<close> request is not
  forwarded.
\<close>

theorem proxy_delete_body_counterexample:
  "req_body (sample_proxy_request ''DELETE'') = JObj [(''name'', JStr ''Rex'')]
   \<and> log (snd (proxy sample_config (sample_proxy_request ''DELETE'')
              (world_of [Reply 200 (JsonBody (JObj []))])))
     = [\<lparr>out_method = ''DELETE'',
         out_url = ''https://api.example.com/items/7'',
         out_headers = [(''host'', JStr ''relay.example.com''),
                        (''origin'', JStr ''https://www.sportdogfood.com''),
                        (''content-type'', JStr ''application/json''),
                        (''Host'', JUndefined), (''Origin'', JUndefined)],
         out_params = JUndefined,
         out_body = NoBody\<rparr>]"
  by (simp add: proxy_def proxy_request_def forwarded_body_def sample_defs client_defs)


section \<open>Upstream failures\<close>

lemma axios_rejected:
  "script w = Reply s p # rest \<Longrightarrow> \<not> is2xx s \<Longrightarrow>
   axios c w = (RejectedResponse s (axios_data p), w\<lparr>script := rest, log := log w @ [c]\<rparr>)"
  by (simp add: axios_def send_def)

lemma web_rejectedD:
  "makeWebflowRequest cfg m e d w = (x, w1) \<Longrightarrow> script w = Reply s p # rest \<Longrightarrow>
   \<not> is2xx s \<Longrightarrow> x = Inl (Thrown s (axios_data p))"
  by (simp add: makeWebflowRequest_def Let_def axios_rejected)

lemma air_rejectedD:
  "makeAirtableRequest cfg m e ps d w = (x, w1) \<Longrightarrow> script w = Reply s p # rest \<Longrightarrow>
   \<not> is2xx s \<Longrightarrow> x = Inl (Thrown s (axios_data p))"
  by (simp add: makeAirtableRequest_def Let_def axios_rejected)

lemmas axios_handler_defs =
  test_auth_def get_page_meta_def put_page_meta_def get_page_content_def post_page_content_def
  get_live_item_def patch_live_item_def get_custom_code_def put_custom_code_def
  cms_items_A_def cms_items_B_def cms_items_def cms_items_raw_def airtable_ping_def

lemma axios_routes_mirror:
  assumes "axios_route r"
      and "script w = Reply s p # rest" "\<not> is2xx s" "s \<noteq> 0"
      and "handle r cfg rq w = (out, w')" "log w' \<noteq> log w"
  shows "\<exists>resp. out = Inr resp \<and> res_status resp = s
           \<and> getProp (res_body resp) ''details'' = Inr (axios_data p)"
  using assms(1,4,5,6)
  by (cases r)
     (auto simp: axios_handler_defs Let_def failed_def failed_flagged_def respond_def
        status_or_500_def
      split: prod.splits sum.splits if_splits
      dest!: web_rejectedD [OF _ assms(2,3)] air_rejectedD [OF _ assms(2,3)])

lemma fetch_routes_mirror:
  assumes "r = WebflowPost \<or> r = FetchTestAuth"
      and "script w = Reply s (JsonBody j) # rest" "\<not> is2xx s"
      and "handle r cfg rq w = (out, w')" "log w' \<noteq> log w"
  shows "\<exists>resp. out = Inr resp \<and> res_status resp = s
           \<and> getProp (res_body resp) ''details'' = Inr j"
  using assms
  by (auto simp: webflow_post_def fetch_test_auth_def Let_def fetch_reply response_json_def
        respond_def
      split: sum.splits)

lemma proxy_rejected:
  assumes "script w = Reply s p # rest" "\<not> is2xx s"
  shows "fst (proxy cfg rq w) =
           Inr \<lparr>res_status = 500,
                res_body = JObj [(''error'', JStr ''Error fetching data from external API'')]\<rparr>"
  using assms by (simp add: proxy_def fetch_reply relay_def respond_def)

lemma foxycart_rejected:
  assumes "script w = Reply s0 (JsonBody tok) # Reply s p # rest" "\<not> nullish tok" "\<not> is2xx s"
  shows "fst (foxycart cfg rq w) =
           Inr \<lparr>res_status = 500,
                res_body = JObj [(''error'', JStr ''Error fetching data from FoxyCart API'')]\<rparr>"
  using assms by (simp add: foxycart_def refreshToken_json fetch_reply relay_def respond_def)

text \<open>
  C1, as amended. Let the upstream answer a handler's call with a status \<open>s\<close> outside
  2xx. On every route that goes through the axios helpers, the response has status \<open>s\<close>
  and carries the upstream body under \<open>details\<close> (the text itself when the body is
  not JSON). On the two routes of the node-fetch variant it does so when the upstream
  body is JSON. On \<open>/proxy/*\<close> and \<open>/foxycart/*\<close> the response has status 500 and
  the body is only a fixed \<open>error\<close> message: neither the upstream status nor the upstream
  body reaches the caller.
\<close>

theorem upstream_failure_responses:
  assumes "\<not> is2xx s" and "s \<noteq> 0"
  shows
    "(axios_route r \<and> script w = Reply s p # rest \<and> log (snd (handle r cfg rq w)) \<noteq> log w \<longrightarrow>
        (\<exists>resp. fst (handle r cfg rq w) = Inr resp \<and> res_status resp = s
           \<and> getProp (res_body resp) ''details'' = Inr (axios_data p)))
     \<and> ((r' = WebflowPost \<or> r' = FetchTestAuth) \<and> script w = Reply s (JsonBody j) # rest
          \<and> log (snd (handle r' cfg rq w)) \<noteq> log w \<longrightarrow>
        (\<exists>resp. fst (handle r' cfg rq w) = Inr resp \<and> res_status resp = s
           \<and> getProp (res_body resp) ''details'' = Inr j))
     \<and> (script w = Reply s p # rest \<longrightarrow>
          fst (handle Proxy cfg rq w) =
            Inr \<lparr>res_status = 500,
                 res_body = JObj [(''error'', JStr ''Error fetching data from external API'')]\<rparr>)
     \<and> (script wc = Reply s0 (JsonBody tok) # Reply s p # rest \<and> \<not> nullish tok \<longrightarrow>
          fst (handle FoxyCart cfg rq wc) =
            Inr \<lparr>res_status = 500,
                 res_body = JObj [(''error'', JStr ''Error fetching data from FoxyCart API'')]\<rparr>)"
proof (intro conjI impI)
  assume a: "axios_route r \<and> script w = Reply s p # rest \<and> log (snd (handle r cfg rq w)) \<noteq> log w"
  show "\<exists>resp. fst (handle r cfg rq w) = Inr resp \<and> res_status resp = s
           \<and> getProp (res_body resp) ''details'' = Inr (axios_data p)"
    using axios_routes_mirror [of r w s p rest cfg rq "fst (handle r cfg rq w)"
        "snd (handle r cfg rq w)"] a assms
    by simp
next
  assume a: "(r' = WebflowPost \<or> r' = FetchTestAuth) \<and> script w = Reply s (JsonBody j) # rest
          \<and> log (snd (handle r' cfg rq w)) \<noteq> log w"
  show "\<exists>resp. fst (handle r' cfg rq w) = Inr resp \<and> res_status resp = s
           \<and> getProp (res_body resp) ''details'' = Inr j"
    using fetch_routes_mirror [of r' w s j rest cfg rq "fst (handle r' cfg rq w)"
        "snd (handle r' cfg rq w)"] a assms
    by simp
next
  assume "script w = Reply s p # rest"
  then show "fst (handle Proxy cfg rq w) =
            Inr \<lparr>res_status = 500,
                 res_body = JObj [(''error'', JStr ''Error fetching data from external API'')]\<rparr>"
    using assms by (simp add: proxy_rejected)
next
  assume "script wc = Reply s0 (JsonBody tok) # Reply s p # rest \<and> \<not> nullish tok"
  then show "fst (handle FoxyCart cfg rq wc) =
            Inr \<lparr>res_status = 500,
                 res_body = JObj [(''error'', JStr ''Error fetching data from FoxyCart API'')]\<rparr>"
    using assms by (simp add: foxycart_rejected)
qed

theorem upstream_failure_responses_witness:
  "\<not> is2xx 404 \<and> (404::nat) \<noteq> 0
   \<and> axios_route PutPageMeta
   \<and> script (world_of [Reply 404 (JsonBody not_found)]) = Reply 404 (JsonBody not_found) # []
   \<and> log (snd (handle PutPageMeta sample_config
          \<lparr>req_method = ''PUT'', req_params = [(''page_id'', ''p1'')], req_headers = [],
           req_body = JObj [(''fieldData'', JObj [])]\<rparr>
          (world_of [Reply 404 (JsonBody not_found)]))) \<noteq> log (world_of [Reply 404 (JsonBody not_found)])
   \<and> fst (handle PutPageMeta sample_config
          \<lparr>req_method = ''PUT'', req_params = [(''page_id'', ''p1'')], req_headers = [],
           req_body = JObj [(''fieldData'', JObj [])]\<rparr>
          (world_of [Reply 404 (JsonBody not_found)]))
       = Inr \<lparr>res_status = 404,
              res_body = JObj [(''error'', JStr ''Failed to update page metadata.''),
                               (''details'', not_found)]\<rparr>
   \<and> log (snd (handle FetchTestAuth sample_config
          \<lparr>req_method = ''PUT'', req_params = [(''page_id'', ''p1'')], req_headers = [],
           req_body = JObj [(''fieldData'', JObj [])]\<rparr>
          (world_of [Reply 404 (JsonBody not_found)]))) \<noteq> log (world_of [Reply 404 (JsonBody not_found)])
   \<and> fst (handle FetchTestAuth sample_config
          \<lparr>req_method = ''PUT'', req_params = [(''page_id'', ''p1'')], req_headers = [],
           req_body = JObj [(''fieldData'', JObj [])]\<rparr>
          (world_of [Reply 404 (JsonBody not_found)]))
       = Inr \<lparr>res_status = 404,
              res_body = JObj [(''success'', JBool False), (''message'', JStr ''Authorization failed.''),
                               (''details'', not_found)]\<rparr>
   \<and> script (world_of [Reply 200 (JsonBody (JObj [(''access_token'', JStr ''t1'')])),
                       Reply 404 (JsonBody not_found)])
       = Reply 200 (JsonBody (JObj [(''access_token'', JStr ''t1'')])) # Reply 404 (JsonBody not_found) # []
   \<and> \<not> nullish (JObj [(''access_token'', JStr ''t1'')])
   \<and> fst (handle FoxyCart sample_config
          \<lparr>req_method = ''PUT'', req_params = [(''page_id'', ''p1'')], req_headers = [],
           req_body = JObj [(''fieldData'', JObj [])]\<rparr>
          (world_of [Reply 200 (JsonBody (JObj [(''access_token'', JStr ''t1'')])),
                     Reply 404 (JsonBody not_found)]))
       = Inr \<lparr>res_status = 500,
              res_body = JObj [(''error'', JStr ''Error fetching data from FoxyCart API'')]\<rparr>"
  using upstream_failure_responses [where s = 404 and r = PutPageMeta
      and w = "world_of [Reply 404 (JsonBody not_found)]"
      and p = "JsonBody not_found" and rest = "[]" and cfg = sample_config
      and rq = "\<lparr>req_method = ''PUT'', req_params = [(''page_id'', ''p1'')], req_headers = [],
        req_body = JObj [(''fieldData'', JObj [])]\<rparr>"
      and r' = FetchTestAuth and j = not_found
      and wc = "world_of [Reply 200 (JsonBody (JObj [(''access_token'', JStr ''t1'')])),
                 Reply 404 (JsonBody not_found)]"
      and ?s0.0 = 200 and tok = "JObj [(''access_token'', JStr ''t1'')]"]
  by (simp add: nullish_def put_page_meta_def fetch_test_auth_def fetch_headers_def
      makeWebflowRequest_def toUpperCase_def upper_char_def failed_def status_or_500_def
      foxycart_def refreshToken_def foxycart_request_def forwarded_body_def req_get_def
      toLowerCase_def lower_char_def js_or_def sample_defs client_defs)

text \<open>
  The claim as stated fails on \<open>/proxy/*\<close>: an upstream 404 with a JSON error body
  reaches the caller as status 500 with a fixed message and no \<open>details\<close>.
\<close>

theorem proxy_upstream_404_counterexample:
  "fst (handle Proxy sample_config (sample_proxy_request ''GET'')
          (world_of [Reply 404 (JsonBody not_found)]))
     = Inr \<lparr>res_status = 500,
            res_body = JObj [(''error'', JStr ''Error fetching data from external API'')]\<rparr>"
  by (simp add: proxy_def proxy_request_def forwarded_body_def sample_defs client_defs)


section \<open>The projection of collection items\<close>

lemma mapM_total:
  "(\<And>x. x \<in> set xs \<Longrightarrow> f x = Inr (g x)) \<Longrightarrow> mapM f xs = Inr (map g xs)"
  by (induction xs) simp_all

lemma project_A_ok:
  "has_fieldData item \<Longrightarrow> project_A item = Inr (projected allow_list_A item)"
  by (simp add: has_fieldData_def project_A_def object_literal_def andThen_def getProp_defined
      projected_def allow_list_A_def)

lemma project_B_ok:
  "has_fieldData item \<Longrightarrow> project_B item = Inr (projected allow_list_B item)"
  by (simp add: has_fieldData_def project_B_def object_literal_def andThen_def getProp_defined
      projected_def allow_list_B_def collectionId_B_def)

text \<open>Without a \<open>fieldData\<close> to read, the callback throws.\<close>

lemma project_throws:
  "\<not> has_fieldData item \<Longrightarrow> project_A item = Inl TypeError \<and> project_B item = Inl TypeError"
  by (cases "nullish item")
     (auto simp add: has_fieldData_def project_A_def project_B_def object_literal_def andThen_def
        getProp_defined getProp_nullish)

lemma clean_items_ok:
  assumes "getPropOpt response ''items'' = JArr items"
      and "\<And>x. x \<in> set items \<Longrightarrow> f x = Inr (g x)"
  shows "clean_items f response = Inr (map g items)"
proof -
  have "\<not> nullish response"
    using assms(1) by (auto simp: nullish_def getPropOpt_def)
  then show ?thesis
    using assms by (simp add: clean_items_def getProp_defined andThen_def mapM_total)
qed

lemma keys_projected: "keys (projected allow item) = map fst allow"
  by (simp add: projected_def case_prod_unfold comp_def)

lemma projected_lookup:
  assumes "distinct (map fst allow)" "(k, src) \<in> set allow"
  shows "getPropOpt (projected allow item) k = source_value item src"
proof -
  have "map_of allow k = Some src"
    using assms by simp
  then have "map_of (map (\<lambda>(k, src). (k, source_value item src)) allow) k
               = Some (source_value item src)"
    by (simp add: map_of_map)
  then show ?thesis
    by (simp add: projected_def getPropOpt_def)
qed

lemma distinct_allow_lists:
  "distinct (map fst allow_list_A)" "distinct (map fst allow_list_B)"
  by (simp_all add: allow_list_A_def allow_list_B_def)

lemma makeWebflowRequest_ok:
  "script w = Reply s p # rest \<Longrightarrow> is2xx s \<Longrightarrow>
   fst (makeWebflowRequest cfg m e d w) = Inr (axios_data p)"
  by (simp add: makeWebflowRequest_def Let_def axios_def send_def)

lemma cms_items_ok:
  assumes "script w = Reply s (JsonBody response) # rest" "is2xx s"
      and "clean_items f response = Inr cleaned"
  shows "fst (cms_items c f cfg rq w) =
           Inr \<lparr>res_status = 200,
                res_body = JObj [(''success'', JBool True),
                                 (''count'', JNum (int (length cleaned))),
                                 (''items'', JArr cleaned)]\<rparr>"
  using assms
    makeWebflowRequest_ok [OF assms(1,2), of cfg "''GET''" "''/v2/collections/'' @ c @ ''/items''" JNull]
  by (auto simp: cms_items_def axios_data_def respond_def split: prod.splits sum.splits)

lemma projected_elements:
  "\<forall>i < length items.
               keys (map (projected allow_list_A) items ! i) = map fst allow_list_A
             \<and> keys (map (projected allow_list_B) items ! i) = map fst allow_list_B
             \<and> (\<forall>(k, src) \<in> set allow_list_A.
                   getPropOpt (map (projected allow_list_A) items ! i) k = source_value (items ! i) src)
             \<and> (\<forall>(k, src) \<in> set allow_list_B.
                   getPropOpt (map (projected allow_list_B) items ! i) k = source_value (items ! i) src)"
proof (intro allI impI conjI)
  fix i assume i: "i < length items"
  show "keys (map (projected allow_list_A) items ! i) = map fst allow_list_A"
    using i by (simp add: keys_projected)
  show "keys (map (projected allow_list_B) items ! i) = map fst allow_list_B"
    using i by (simp add: keys_projected)
  show "\<forall>(k, src) \<in> set allow_list_A.
          getPropOpt (map (projected allow_list_A) items ! i) k = source_value (items ! i) src"
  proof (intro ballI, clarify)
    fix k src assume "(k, src) \<in> set allow_list_A"
    then have "getPropOpt (projected allow_list_A (items ! i)) k = source_value (items ! i) src"
      by (rule projected_lookup [OF distinct_allow_lists(1)])
    with i show "getPropOpt (map (projected allow_list_A) items ! i) k = source_value (items ! i) src"
      by (simp only: nth_map)
  qed
  show "\<forall>(k, src) \<in> set allow_list_B.
          getPropOpt (map (projected allow_list_B) items ! i) k = source_value (items ! i) src"
  proof (intro ballI, clarify)
    fix k src assume "(k, src) \<in> set allow_list_B"
    then have "getPropOpt (projected allow_list_B (items ! i)) k = source_value (items ! i) src"
      by (rule projected_lookup [OF distinct_allow_lists(2)])
    with i show "getPropOpt (map (projected allow_list_B) items ! i) k = source_value (items ! i) src"
      by (simp only: nth_map)
  qed
qed

lemma cms_routes_ok:
  assumes a: "clean_items project_A response = Inr A" and b: "clean_items project_B response = Inr B"
   and l: "length A = n" "length B = n"
  shows "\<forall>s rest. script w = Reply s (JsonBody response) # rest \<and> is2xx s \<longrightarrow>
               fst (handle CmsItemsA cfg rq w) =
                 Inr \<lparr>res_status = 200,
                      res_body = JObj [(''success'', JBool True),
                                       (''count'', JNum (int n)),
                                       (''items'', JArr A)]\<rparr>
             \<and> fst (handle CmsItemsB cfg rq w) =
                 Inr \<lparr>res_status = 200,
                      res_body = JObj [(''success'', JBool True),
                                       (''count'', JNum (int n)),
                                       (''items'', JArr B)]\<rparr>"
proof (intro allI impI)
  fix s rest
  assume h: "script w = Reply s (JsonBody response) # rest \<and> is2xx s"
  then have 1: "script w = Reply s (JsonBody response) # rest" and 2: "is2xx s" by simp_all
  show "fst (handle CmsItemsA cfg rq w) =
                 Inr \<lparr>res_status = 200,
                      res_body = JObj [(''success'', JBool True),
                                       (''count'', JNum (int n)),
                                       (''items'', JArr A)]\<rparr>
             \<and> fst (handle CmsItemsB cfg rq w) =
                 Inr \<lparr>res_status = 200,
                      res_body = JObj [(''success'', JBool True),
                                       (''count'', JNum (int n)),
                                       (''items'', JArr B)]\<rparr>"
    using cms_items_ok [OF 1 2 a, of collectionId_A cfg rq]
      cms_items_ok [OF 1 2 b, of collectionId_B cfg rq] l
    by (simp add: cms_items_A_def cms_items_B_def)
qed

lemma mapM_throws:
  assumes "\<And>x. x \<in> set xs \<Longrightarrow> f x = Inr (g x) \<or> f x = Inl e"
      and "\<exists>x \<in> set xs. f x = Inl e"
  shows "mapM f xs = Inl e"
  using assms
proof (induction xs)
  case Nil
  then show ?case by simp
next
  case (Cons x xs)
  show ?case
  proof (cases "f x = Inl e")
    case True
    then show ?thesis by simp
  next
    case False
    then have fx: "f x = Inr (g x)"
      using Cons.prems(1) [of x] by simp
    from False Cons.prems(2) have "\<exists>y \<in> set xs. f y = Inl e"
      by auto
    then have "mapM f xs = Inl e"
      using Cons.IH Cons.prems(1) by simp
    with fx show ?thesis by simp
  qed
qed

lemma clean_items_throws:
  assumes "getPropOpt response ''items'' = JArr items"
      and "\<exists>item \<in> set items. \<not> has_fieldData item"
  shows "clean_items project_A response = Inl TypeError"
    and "clean_items project_B response = Inl TypeError"
proof -
  have n: "\<not> nullish response"
    using assms(1) by (auto simp: nullish_def getPropOpt_def)
  have a: "mapM project_A items = Inl TypeError"
  proof (rule mapM_throws [where g = "projected allow_list_A"])
    fix x
    show "project_A x = Inr (projected allow_list_A x) \<or> project_A x = Inl TypeError"
      using project_A_ok [of x] project_throws [of x] by blast
    show "\<exists>x \<in> set items. project_A x = Inl TypeError"
      using assms(2) project_throws by blast
  qed
  have b: "mapM project_B items = Inl TypeError"
  proof (rule mapM_throws [where g = "projected allow_list_B"])
    fix x
    show "project_B x = Inr (projected allow_list_B x) \<or> project_B x = Inl TypeError"
      using project_B_ok [of x] project_throws [of x] by blast
    show "\<exists>x \<in> set items. project_B x = Inl TypeError"
      using assms(2) project_throws by blast
  qed
  from n assms(1) a show "clean_items project_A response = Inl TypeError"
    by (simp add: clean_items_def getProp_defined andThen_def)
  from n assms(1) b show "clean_items project_B response = Inl TypeError"
    by (simp add: clean_items_def getProp_defined andThen_def)
qed

lemma cms_items_caught:
  assumes "script w = Reply s (JsonBody response) # rest" "is2xx s"
      and "clean_items f response = Inl TypeError"
  shows "fst (cms_items c f cfg rq w) =
           Inr \<lparr>res_status = 500,
                res_body = JObj [(''success'', JBool False),
                                 (''message'', JStr ''Failed to fetch CMS items.''),
                                 (''details'', JUndefined)]\<rparr>"
  using assms
    makeWebflowRequest_ok [OF assms(1,2), of cfg "''GET''" "''/v2/collections/'' @ c @ ''/items''" JNull]
  by (auto simp: cms_items_def axios_data_def respond_def failed_flagged_def status_or_500_def
      split: prod.splits sum.splits)

lemma cms_routes_caught:
  assumes a: "clean_items project_A response = Inl TypeError"
      and b: "clean_items project_B response = Inl TypeError"
  shows "\<forall>s rest. script w = Reply s (JsonBody response) # rest \<and> is2xx s \<longrightarrow>
           fst (handle CmsItemsA cfg rq w) =
             Inr \<lparr>res_status = 500,
                  res_body = JObj [(''success'', JBool False),
                                   (''message'', JStr ''Failed to fetch CMS items.''),
                                   (''details'', JUndefined)]\<rparr>
         \<and> fst (handle CmsItemsB cfg rq w) =
             Inr \<lparr>res_status = 500,
                  res_body = JObj [(''success'', JBool False),
                                   (''message'', JStr ''Failed to fetch CMS items.''),
                                   (''details'', JUndefined)]\<rparr>"
proof (intro allI impI)
  fix s rest
  assume h: "script w = Reply s (JsonBody response) # rest \<and> is2xx s"
  then have 1: "script w = Reply s (JsonBody response) # rest" and 2: "is2xx s"
    by simp_all
  show "fst (handle CmsItemsA cfg rq w) =
             Inr \<lparr>res_status = 500,
                  res_body = JObj [(''success'', JBool False),
                                   (''message'', JStr ''Failed to fetch CMS items.''),
                                   (''details'', JUndefined)]\<rparr>
         \<and> fst (handle CmsItemsB cfg rq w) =
             Inr \<lparr>res_status = 500,
                  res_body = JObj [(''success'', JBool False),
                                   (''message'', JStr ''Failed to fetch CMS items.''),
                                   (''details'', JUndefined)]\<rparr>"
    using cms_items_caught [OF 1 2 a, of collectionId_A cfg rq]
      cms_items_caught [OF 1 2 b, of collectionId_B cfg rq]
    by (simp add: cms_items_A_def cms_items_B_def)
qed

lemma projection_total_part:
  assumes "getPropOpt response ''items'' = JArr items"
      and "\<forall>item \<in> set items. has_fieldData item"
  shows "\<exists>cleanedA cleanedB.
           clean_items project_A response = Inr cleanedA
         \<and> clean_items project_B response = Inr cleanedB
         \<and> cleanedA = map (projected allow_list_A) items
         \<and> cleanedB = map (projected allow_list_B) items
         \<and> length cleanedA = length items
         \<and> length cleanedB = length items
         \<and> (\<forall>i < length items.
               keys (cleanedA ! i) = map fst allow_list_A
             \<and> keys (cleanedB ! i) = map fst allow_list_B
             \<and> (\<forall>(k, src) \<in> set allow_list_A.
                   getPropOpt (cleanedA ! i) k = source_value (items ! i) src)
             \<and> (\<forall>(k, src) \<in> set allow_list_B.
                   getPropOpt (cleanedB ! i) k = source_value (items ! i) src))
         \<and> (\<forall>s rest. script w = Reply s (JsonBody response) # rest \<and> is2xx s \<longrightarrow>
               fst (handle CmsItemsA cfg rq w) =
                 Inr \<lparr>res_status = 200,
                      res_body = JObj [(''success'', JBool True),
                                       (''count'', JNum (int (length items))),
                                       (''items'', JArr cleanedA)]\<rparr>
             \<and> fst (handle CmsItemsB cfg rq w) =
                 Inr \<lparr>res_status = 200,
                      res_body = JObj [(''success'', JBool True),
                                       (''count'', JNum (int (length items))),
                                       (''items'', JArr cleanedB)]\<rparr>)"
proof -
  let ?A = "map (projected allow_list_A) items" and ?B = "map (projected allow_list_B) items"
  have a: "clean_items project_A response = Inr ?A"
    using assms by (intro clean_items_ok) (simp_all add: project_A_ok)
  have b: "clean_items project_B response = Inr ?B"
    using assms by (intro clean_items_ok) (simp_all add: project_B_ok)
  have la: "length ?A = length items" and lb: "length ?B = length items"
    by simp_all
  show ?thesis
    apply (rule exI [of _ ?A])
    apply (rule exI [of _ ?B])
    apply (intro conjI)
           apply (rule a)
          apply (rule b)
         apply (rule refl)
        apply (rule refl)
       apply (rule la)
      apply (rule lb)
     apply (rule projected_elements)
    apply (rule cms_routes_ok [OF a b la lb])
    done
qed

text \<open>
  C4, as amended. Let the upstream payload have an array under \<open>items\<close>. If every item
  has a \<open>fieldData\<close> (neither the item nor its \<open>fieldData\<close> is \<open>null\<close> or missing), the
  projection of either variant returns an array of the same length; each element has
  exactly the keys of the variant's list, in that order; and the value under each key is
  the source property of the corresponding item, as it is (\<open>undefined\<close> when the item
  lacks it), except for \<open>collectionId\<close> in the second variant, which is the collection
  id fixed in the code. The array depends on nothing but the items. The route answers
  200 with \<open>success\<close>, the length as \<open>count\<close> and the array as \<open>items\<close>. If some item or
  its \<open>fieldData\<close> is \<open>null\<close> or missing, the projection throws and returns no array,
  and the route answers 500.
\<close>

theorem projection_of_items:
  assumes "getPropOpt response ''items'' = JArr items"
  shows "((\<forall>item \<in> set items. has_fieldData item) \<longrightarrow>
          (\<exists>cleanedA cleanedB.
             clean_items project_A response = Inr cleanedA
           \<and> clean_items project_B response = Inr cleanedB
           \<and> cleanedA = map (projected allow_list_A) items
           \<and> cleanedB = map (projected allow_list_B) items
           \<and> length cleanedA = length items
           \<and> length cleanedB = length items
           \<and> (\<forall>i < length items.
                 keys (cleanedA ! i) = map fst allow_list_A
               \<and> keys (cleanedB ! i) = map fst allow_list_B
               \<and> (\<forall>(k, src) \<in> set allow_list_A.
                     getPropOpt (cleanedA ! i) k = source_value (items ! i) src)
               \<and> (\<forall>(k, src) \<in> set allow_list_B.
                     getPropOpt (cleanedB ! i) k = source_value (items ! i) src))
           \<and> (\<forall>s rest. script w = Reply s (JsonBody response) # rest \<and> is2xx s \<longrightarrow>
                 fst (handle CmsItemsA cfg rq w) =
                   Inr \<lparr>res_status = 200,
                        res_body = JObj [(''success'', JBool True),
                                         (''count'', JNum (int (length items))),
                                         (''items'', JArr cleanedA)]\<rparr>
               \<and> fst (handle CmsItemsB cfg rq w) =
                   Inr \<lparr>res_status = 200,
                        res_body = JObj [(''success'', JBool True),
                                         (''count'', JNum (int (length items))),
                                         (''items'', JArr cleanedB)]\<rparr>)))
       \<and> ((\<exists>item \<in> set items. \<not> has_fieldData item) \<longrightarrow>
            clean_items project_A response = Inl TypeError
          \<and> clean_items project_B response = Inl TypeError
          \<and> (\<forall>s rest. script w = Reply s (JsonBody response) # rest \<and> is2xx s \<longrightarrow>
                fst (handle CmsItemsA cfg rq w) =
                  Inr \<lparr>res_status = 500,
                       res_body = JObj [(''success'', JBool False),
                                        (''message'', JStr ''Failed to fetch CMS items.''),
                                        (''details'', JUndefined)]\<rparr>
              \<and> fst (handle CmsItemsB cfg rq w) =
                  Inr \<lparr>res_status = 500,
                       res_body = JObj [(''success'', JBool False),
                                        (''message'', JStr ''Failed to fetch CMS items.''),
                                        (''details'', JUndefined)]\<rparr>))"
proof (intro conjI impI)
  assume "\<forall>item \<in> set items. has_fieldData item"
  with assms show "\<exists>cleanedA cleanedB.
             clean_items project_A response = Inr cleanedA
           \<and> clean_items project_B response = Inr cleanedB
           \<and> cleanedA = map (projected allow_list_A) items
           \<and> cleanedB = map (projected allow_list_B) items
           \<and> length cleanedA = length items
           \<and> length cleanedB = length items
           \<and> (\<forall>i < length items.
                 keys (cleanedA ! i) = map fst allow_list_A
               \<and> keys (cleanedB ! i) = map fst allow_list_B
               \<and> (\<forall>(k, src) \<in> set allow_list_A.
                     getPropOpt (cleanedA ! i) k = source_value (items ! i) src)
               \<and> (\<forall>(k, src) \<in> set allow_list_B.
                     getPropOpt (cleanedB ! i) k = source_value (items ! i) src))
           \<and> (\<forall>s rest. script w = Reply s (JsonBody response) # rest \<and> is2xx s \<longrightarrow>
                 fst (handle CmsItemsA cfg rq w) =
                   Inr \<lparr>res_status = 200,
                        res_body = JObj [(''success'', JBool True),
                                         (''count'', JNum (int (length items))),
                                         (''items'', JArr cleanedA)]\<rparr>
               \<and> fst (handle CmsItemsB cfg rq w) =
                   Inr \<lparr>res_status = 200,
                        res_body = JObj [(''success'', JBool True),
                                         (''count'', JNum (int (length items))),
                                         (''items'', JArr cleanedB)]\<rparr>)"
    by (rule projection_total_part)
next
  assume bad: "\<exists>item \<in> set items. \<not> has_fieldData item"
  show "clean_items project_A response = Inl TypeError"
    using assms bad by (rule clean_items_throws(1))
  show "clean_items project_B response = Inl TypeError"
    using assms bad by (rule clean_items_throws(2))
  show "\<forall>s rest. script w = Reply s (JsonBody response) # rest \<and> is2xx s \<longrightarrow>
                fst (handle CmsItemsA cfg rq w) =
                  Inr \<lparr>res_status = 500,
                       res_body = JObj [(''success'', JBool False),
                                        (''message'', JStr ''Failed to fetch CMS items.''),
                                        (''details'', JUndefined)]\<rparr>
              \<and> fst (handle CmsItemsB cfg rq w) =
                  Inr \<lparr>res_status = 500,
                       res_body = JObj [(''success'', JBool False),
                                        (''message'', JStr ''Failed to fetch CMS items.''),
                                        (''details'', JUndefined)]\<rparr>"
    using clean_items_throws [OF assms bad] by (rule cms_routes_caught)
qed

theorem projection_of_items_witness:
  "getPropOpt (JObj [(''items'', JArr [JObj [(''id'', JStr ''i1''), (''createdOn'', JStr ''2024-01-01''),
        (''fieldData'', JObj [(''name'', JStr ''Rex''), (''linkto'', JStr ''/rex'')])]])]) ''items''
     = JArr [JObj [(''id'', JStr ''i1''), (''createdOn'', JStr ''2024-01-01''),
        (''fieldData'', JObj [(''name'', JStr ''Rex''), (''linkto'', JStr ''/rex'')])]]
   \<and> has_fieldData (JObj [(''id'', JStr ''i1''), (''createdOn'', JStr ''2024-01-01''),
        (''fieldData'', JObj [(''name'', JStr ''Rex''), (''linkto'', JStr ''/rex'')])])
   \<and> clean_items project_A (JObj [(''items'', JArr [JObj [(''id'', JStr ''i1''),
        (''createdOn'', JStr ''2024-01-01''),
        (''fieldData'', JObj [(''name'', JStr ''Rex''), (''linkto'', JStr ''/rex'')])]])])
     = Inr [JObj [(''id'', JStr ''i1''), (''name'', JStr ''Rex''), (''display'', JUndefined),
          (''type'', JUndefined), (''company'', JUndefined), (''category'', JUndefined),
          (''description'', JUndefined), (''keywords'', JUndefined), (''link'', JStr ''/rex''),
          (''options'', JUndefined), (''opts_ids'', JUndefined), (''slug'', JUndefined),
          (''createdOn'', JStr ''2024-01-01''), (''lastUpdated'', JUndefined)]]
   \<and> getPropOpt (JObj [(''items'', JArr [JObj [(''id'', JStr ''i2''), (''fieldData'', JNull)]])]) ''items''
     = JArr [JObj [(''id'', JStr ''i2''), (''fieldData'', JNull)]]
   \<and> \<not> has_fieldData (JObj [(''id'', JStr ''i2''), (''fieldData'', JNull)])
   \<and> clean_items project_B (JObj [(''items'', JArr [JObj [(''id'', JStr ''i2''), (''fieldData'', JNull)]])])
     = Inl TypeError
   \<and> script (world_of [Reply 200 (JsonBody
        (JObj [(''items'', JArr [JObj [(''id'', JStr ''i2''), (''fieldData'', JNull)]])]))])
     = Reply 200 (JsonBody
        (JObj [(''items'', JArr [JObj [(''id'', JStr ''i2''), (''fieldData'', JNull)]])])) # []
   \<and> is2xx 200
   \<and> fst (handle CmsItemsB sample_config (sample_proxy_request ''GET'')
        (world_of [Reply 200 (JsonBody
          (JObj [(''items'', JArr [JObj [(''id'', JStr ''i2''), (''fieldData'', JNull)]])]))]))
     = Inr \<lparr>res_status = 500,
            res_body = JObj [(''success'', JBool False),
                             (''message'', JStr ''Failed to fetch CMS items.''),
                             (''details'', JUndefined)]\<rparr>"
proof -
  let ?good = "JObj [(''id'', JStr ''i1''), (''createdOn'', JStr ''2024-01-01''),
        (''fieldData'', JObj [(''name'', JStr ''Rex''), (''linkto'', JStr ''/rex'')])]"
  let ?bad = "JObj [(''id'', JStr ''i2''), (''fieldData'', JNull)]"
  let ?w = "world_of [Reply 200 (JsonBody (JObj [(''items'', JArr [?bad])]))]"
  have g1: "getPropOpt (JObj [(''items'', JArr [?good])]) ''items'' = JArr [?good]"
    by (simp add: getPropOpt_def)
  have g2: "has_fieldData ?good"
    by (simp add: has_fieldData_def nullish_def getPropOpt_def)
  have b1: "getPropOpt (JObj [(''items'', JArr [?bad])]) ''items'' = JArr [?bad]"
    by (simp add: getPropOpt_def)
  have b2: "\<not> has_fieldData ?bad"
    by (simp add: has_fieldData_def nullish_def getPropOpt_def)
  have s: "script ?w = Reply 200 (JsonBody (JObj [(''items'', JArr [?bad])])) # []"
    by (simp add: world_of_def)
  have ok: "is2xx 200"
    by (simp add: is2xx_def)
  from projection_of_items [OF g1, of "world_of []" sample_config "sample_proxy_request ''GET''"] g2
  have "clean_items project_A (JObj [(''items'', JArr [?good])]) = Inr [projected allow_list_A ?good]"
    by simp
  then have good: "clean_items project_A (JObj [(''items'', JArr [?good])])
     = Inr [JObj [(''id'', JStr ''i1''), (''name'', JStr ''Rex''), (''display'', JUndefined),
          (''type'', JUndefined), (''company'', JUndefined), (''category'', JUndefined),
          (''description'', JUndefined), (''keywords'', JUndefined), (''link'', JStr ''/rex''),
          (''options'', JUndefined), (''opts_ids'', JUndefined), (''slug'', JUndefined),
          (''createdOn'', JStr ''2024-01-01''), (''lastUpdated'', JUndefined)]]"
    by (simp add: projected_def allow_list_A_def getPropOpt_def)
  from projection_of_items [OF b1, of ?w sample_config "sample_proxy_request ''GET''"] b2 s ok
  have "clean_items project_B (JObj [(''items'', JArr [?bad])]) = Inl TypeError"
    and "fst (handle CmsItemsB sample_config (sample_proxy_request ''GET'') ?w)
     = Inr \<lparr>res_status = 500,
            res_body = JObj [(''success'', JBool False),
                             (''message'', JStr ''Failed to fetch CMS items.''),
                             (''details'', JUndefined)]\<rparr>"
    by simp_all
  with g1 g2 good b1 b2 s ok show ?thesis
    by blast
qed

text \<open>
  The claim as stated fails in two ways. An item without \<open>fieldData\<close> makes the
  projection throw, so there is no output array, and the route answers 500. And in the
  second variant the value under \<open>collectionId\<close> is not a property of the item.
\<close>

theorem projection_counterexample:
  "clean_items project_A (JObj [(''items'', JArr [JObj [(''id'', JStr ''i1'')]])]) = Inl TypeError
   \<and> fst (handle CmsItemsA sample_config (sample_proxy_request ''GET'')
          (world_of [Reply 200 (JsonBody (JObj [(''items'', JArr [JObj [(''id'', JStr ''i1'')]])]))]))
       = Inr \<lparr>res_status = 500,
              res_body = JObj [(''success'', JBool False),
                               (''message'', JStr ''Failed to fetch CMS items.''),
                               (''details'', JUndefined)]\<rparr>
   \<and> clean_items project_B
        (JObj [(''items'', JArr [JObj [(''id'', JStr ''i1''),
                                      (''fieldData'', JObj [(''name'', JStr ''Rex'')])]])])
       = Inr [JObj [(''name'', JStr ''Rex''), (''slug'', JUndefined),
          (''collectionId'', JStr ''64b01211660e83444d2586c1''), (''itemId'', JStr ''i1''),
          (''createdOn'', JUndefined), (''updatedOn'', JUndefined), (''publishedOn'', JUndefined),
          (''type'', JUndefined), (''display'', JUndefined), (''company'', JUndefined),
          (''category'', JUndefined), (''options'', JUndefined), (''description'', JUndefined),
          (''suggest'', JUndefined), (''linkto'', JUndefined), (''co'', JUndefined),
          (''expl'', JUndefined), (''comp'', JUndefined), (''acct'', JUndefined)]]"
  by (simp add: clean_items_def project_A_def project_B_def object_literal_def
      collectionId_A_def collectionId_B_def cms_items_A_def cms_items_def makeWebflowRequest_def
      failed_flagged_def status_or_500_def toUpperCase_def upper_char_def
      sample_defs client_defs)

section \<open>Start-up checks\<close>

lemma truthy_env: "truthy (env_get env k) = (\<not> unset env k)"
  by (simp add: env_get_def unset_def split: option.splits)

text \<open>
  C5, as amended. In the axios variants the process exits with code 1, before
  \<open>app.listen\<close>, when \<open>WEBFLOW_API_KEY\<close> or \<open>SITE_ID\<close> is absent or empty, and in the
  variant with the spreadsheet route also when \<open>AIRTABLE_API_KEY\<close> or
  \<open>AIRTABLE_BASE_ID\<close> is; when these variants listen, their handlers run with the
  values of the environment, none of them unset. The node-fetch variant and the proxy
  variant make no such check: whatever the environment, they listen, the node-fetch
  variant with the key as it found it, set or not.
\<close>

theorem startup_checks:
  "(unset env ''WEBFLOW_API_KEY'' \<or> unset env ''SITE_ID'' \<longrightarrow> startup_webflow env = Exited 1)
   \<and> (unset env ''WEBFLOW_API_KEY'' \<or> unset env ''SITE_ID'' \<or> unset env ''AIRTABLE_API_KEY''
        \<or> unset env ''AIRTABLE_BASE_ID'' \<longrightarrow> startup_airtable env = Exited 1)
   \<and> (\<forall>cfg. startup_webflow env = Listening cfg \<longrightarrow>
         WEBFLOW_API_KEY cfg = env_get env ''WEBFLOW_API_KEY'' \<and> \<not> unset env ''WEBFLOW_API_KEY''
         \<and> SITE_ID cfg = env_get env ''SITE_ID'' \<and> \<not> unset env ''SITE_ID'')
   \<and> (\<forall>cfg. startup_airtable env = Listening cfg \<longrightarrow>
         WEBFLOW_API_KEY cfg = env_get env ''WEBFLOW_API_KEY'' \<and> \<not> unset env ''WEBFLOW_API_KEY''
         \<and> SITE_ID cfg = env_get env ''SITE_ID'' \<and> \<not> unset env ''SITE_ID''
         \<and> AIRTABLE_API_KEY cfg = env_get env ''AIRTABLE_API_KEY''
         \<and> \<not> unset env ''AIRTABLE_API_KEY''
         \<and> AIRTABLE_BASE_ID cfg = env_get env ''AIRTABLE_BASE_ID''
         \<and> \<not> unset env ''AIRTABLE_BASE_ID'')
   \<and> (\<exists>cfg. startup_fetch env = Listening cfg
         \<and> WEBFLOW_API_KEY cfg = env_get env ''WEBFLOW_API_KEY'')
   \<and> (\<exists>cfg. startup_proxy env = Listening cfg)"
proof -
  have axios: "(unset env ''WEBFLOW_API_KEY'' \<or> unset env ''SITE_ID'' \<longrightarrow> startup_webflow env = Exited 1)
   \<and> (unset env ''WEBFLOW_API_KEY'' \<or> unset env ''SITE_ID'' \<or> unset env ''AIRTABLE_API_KEY''
        \<or> unset env ''AIRTABLE_BASE_ID'' \<longrightarrow> startup_airtable env = Exited 1)
   \<and> (\<forall>cfg. startup_webflow env = Listening cfg \<longrightarrow>
         WEBFLOW_API_KEY cfg = env_get env ''WEBFLOW_API_KEY'' \<and> \<not> unset env ''WEBFLOW_API_KEY''
         \<and> SITE_ID cfg = env_get env ''SITE_ID'' \<and> \<not> unset env ''SITE_ID'')
   \<and> (\<forall>cfg. startup_airtable env = Listening cfg \<longrightarrow>
         WEBFLOW_API_KEY cfg = env_get env ''WEBFLOW_API_KEY'' \<and> \<not> unset env ''WEBFLOW_API_KEY''
         \<and> SITE_ID cfg = env_get env ''SITE_ID'' \<and> \<not> unset env ''SITE_ID''
         \<and> AIRTABLE_API_KEY cfg = env_get env ''AIRTABLE_API_KEY''
         \<and> \<not> unset env ''AIRTABLE_API_KEY''
         \<and> AIRTABLE_BASE_ID cfg = env_get env ''AIRTABLE_BASE_ID''
         \<and> \<not> unset env ''AIRTABLE_BASE_ID'')"
    by (auto simp: startup_webflow_def startup_airtable_def read_config_def Let_def truthy_env
        split: if_splits)
  have fetch: "\<exists>cfg. startup_fetch env = Listening cfg
         \<and> WEBFLOW_API_KEY cfg = env_get env ''WEBFLOW_API_KEY''"
    by (simp add: startup_fetch_def read_config_def)
  have prox: "\<exists>cfg. startup_proxy env = Listening cfg"
    by (simp add: startup_proxy_def)
  from axios fetch prox show ?thesis
    by blast
qed

theorem startup_checks_witness:
  "unset env_without_base ''AIRTABLE_BASE_ID''
   \<and> startup_airtable env_without_base = Exited 1
   \<and> startup_webflow env_without_base
      = Listening \<lparr>WEBFLOW_API_KEY = JStr ''key'', SITE_ID = JStr ''site'',
          AIRTABLE_API_KEY = JUndefined, AIRTABLE_BASE_ID = JUndefined,
          AIRTABLE_HORSES_TABLE = JUndefined, PORT = JNum 3000\<rparr>
   \<and> \<not> unset env_without_base ''WEBFLOW_API_KEY''
   \<and> \<not> unset env_without_base ''SITE_ID''
   \<and> (\<exists>cfg. startup_fetch env_without_base = Listening cfg)
   \<and> (\<exists>cfg. startup_proxy env_without_base = Listening cfg)"
proof -
  have u: "unset env_without_base ''AIRTABLE_BASE_ID''"
    by (simp add: unset_def env_without_base_def)
  have l: "startup_webflow env_without_base
      = Listening \<lparr>WEBFLOW_API_KEY = JStr ''key'', SITE_ID = JStr ''site'',
          AIRTABLE_API_KEY = JUndefined, AIRTABLE_BASE_ID = JUndefined,
          AIRTABLE_HORSES_TABLE = JUndefined, PORT = JNum 3000\<rparr>"
    by (simp add: startup_webflow_def read_config_def env_get_def js_or_def env_without_base_def)
  note t = startup_checks [of env_without_base]
  from t u have e: "startup_airtable env_without_base = Exited 1"
    by blast
  from t l have "\<not> unset env_without_base ''WEBFLOW_API_KEY''"
    and "\<not> unset env_without_base ''SITE_ID''"
    by blast+
  moreover from t have "\<exists>cfg. startup_fetch env_without_base = Listening cfg"
    and "\<exists>cfg. startup_proxy env_without_base = Listening cfg"
    by blast+
  ultimately show ?thesis
    using u l e by blast
qed

text \<open>
  The claim as stated fails on the node-fetch variant: with no \<open>WEBFLOW_API_KEY\<close> in the
  environment it listens all the same, and its handler then calls the upstream with the
  header \<open>authorization: Bearer undefined\<close>.
\<close>

theorem startup_fetch_counterexample:
  "startup_fetch Map.empty = Listening unchecked_config
   \<and> log (snd (handle FetchTestAuth unchecked_config
        \<lparr>req_method = ''POST'', req_params = [], req_headers = [], req_body = JObj []\<rparr>
        (world_of [Reply 401 (JsonBody (JObj [(''msg'', JStr ''Unauthorized'')]))])))
     = [\<lparr>out_method = ''GET'', out_url = ''https://api.webflow.com/sites'',
         out_headers = [(''accept'', JStr ''application/json''),
                        (''authorization'', JStr ''Bearer undefined''),
                        (''content-type'', JStr ''application/json'')],
         out_params = JUndefined, out_body = NoBody\<rparr>]"
  by (simp add: startup_fetch_def read_config_def env_get_def js_or_def unchecked_config_def
      fetch_test_auth_def fetch_headers_def sample_defs client_defs)

end
